theory Spec2Isabelle
  imports Main "HOL-Library.Word"
begin

section \<open>Data model (internal/models)\<close>

text \<open>
  A \<^verbatim>\<open>uuid.UUID\<close> is an array of 16 bytes, so it is a 128-bit word; \<^verbatim>\<open>uuid.Nil\<close> is
  the all-zero value. A \<^verbatim>\<open>time.Time\<close> is a point on a clock, here a natural number
  whose zero is the zero value of the Go type. Pointers to a field that is never
  reassigned after the pointer has been taken are read as the value they point to, and a
  nil pointer is \<open>None\<close>.
\<close>

type_synonym uuid = "128 word"

definition uuid_Nil :: uuid where
  "uuid_Nil = 0"

type_synonym timestamp = nat

record User =
  User_ID :: uuid
  User_TeamID :: "uuid option"
  User_Name :: string
  User_IsActive :: bool

record Team =
  Team_ID :: uuid
  Team_Name :: string
  Team_Members :: "User list"

record PRReviewer =
  Rev_ID :: uuid
  Rev_PRID :: uuid
  Rev_AssignedAt :: timestamp

record PullRequest =
  PR_ID :: uuid
  PR_Name :: string
  PR_AuthorID :: uuid
  PR_Status :: string
  PR_CreatedAt :: timestamp
  PR_MergedAt :: "timestamp option"
  PR_Reviewers :: "PRReviewer list"

text \<open>The two members of the SQL enum \<^verbatim>\<open>pr_status\<close> (migration 0004).\<close>

definition PRStatusOpen :: string where
  "PRStatusOpen = ''OPEN''"

definition PRStatusMerged :: string where
  "PRStatusMerged = ''MERGED''"

text \<open>The zero value \<^verbatim>\<open>&models.PullRequest{}\<close>.\<close>

definition zeroPullRequest :: PullRequest where
  "zeroPullRequest =
     \<lparr>PR_ID = 0, PR_Name = [], PR_AuthorID = 0, PR_Status = [], PR_CreatedAt = 0,
      PR_MergedAt = None, PR_Reviewers = []\<rparr>"

section \<open>Errors (internal/repository, internal/service/errors.go)\<close>

text \<open>
  The sentinel errors of the repository and of the service are distinct values created
  once; \<^verbatim>\<open>service.ErrNotFound\<close> is the very value \<^verbatim>\<open>repository.ErrNotFound\<close>. Any other
  error is \<open>ErrOther\<close> with its message, and \<open>Wrapped\<close> is an error that wraps
  another one (\<^verbatim>\<open>fmt.Errorf("...: %w", err)\<close>). A nil \<^verbatim>\<open>error\<close> is \<open>None\<close>.
\<close>

datatype err =
    ErrNotFound
  | ErrDuplicate
  | ErrInvalidID
  | ErrForeignKeyViolation
  | ErrTxAborted
  | ErrNoAvailableReviewer
  | ErrCanNotReassing
  | ErrTeamAlreadyExists
  | ErrNotAssinged
  | ErrOther string
  | Wrapped string err

text \<open>\<^verbatim>\<open>errors.Is\<close>: compare, then unwrap and compare again, down the chain.\<close>

fun unwrap_Is :: "err \<Rightarrow> err \<Rightarrow> bool" where
  "unwrap_Is (Wrapped m e) target = (Wrapped m e = target \<or> unwrap_Is e target)"
| "unwrap_Is e target = (e = target)"

definition errors_Is :: "err option \<Rightarrow> err \<Rightarrow> bool" where
  "errors_Is e target = (case e of None \<Rightarrow> False | Some x \<Rightarrow> unwrap_Is x target)"

section \<open>Retry classification (internal/app/utils.go)\<close>

definition unretryableErrors :: "err list" where
  "unretryableErrors =
     [ErrDuplicate, ErrNotFound, ErrInvalidID, ErrForeignKeyViolation, ErrNotFound,
      ErrTxAborted]"

fun isRetryable_scan :: "err option \<Rightarrow> err list \<Rightarrow> bool" where
  "isRetryable_scan e [] = True"
| "isRetryable_scan e (unretryableErr # rest) =
     (if errors_Is e unretryableErr then False else isRetryable_scan e rest)"

definition isRetryableFunc :: "err option \<Rightarrow> bool" where
  "isRetryableFunc e = isRetryable_scan e unretryableErrors"

text \<open>
  Modelled from the spec: the retry loop of package \<^verbatim>\<open>retry\<close> (\<^verbatim>\<open>Retrier.Do\<close>), whose
  source is not among the sources. Section 4.1 of the specification:
  the operation is invoked up to a configured maximum number of attempts; before a retry
  the classifier is consulted and, when it answers false, the error is returned as it
  is; exhausting the attempts returns the last error. The waiting between attempts has
  no effect on the result and is left out. The third component of the result counts the
  invocations of the operation.
\<close>

fun retry_Do ::
  "(err option \<Rightarrow> bool) \<Rightarrow> nat \<Rightarrow> ('w \<Rightarrow> err option \<times> 'w) \<Rightarrow> 'w \<Rightarrow> err option \<times> 'w \<times> nat"
where
  "retry_Do isRetryable 0 operation w = (None, w, 0)"
| "retry_Do isRetryable (Suc remaining) operation w =
     (case operation w of
        (None, w') \<Rightarrow> (None, w', 1)
      | (Some e, w') \<Rightarrow>
          if remaining = 0 \<or> \<not> isRetryable (Some e) then (Some e, w', 1)
          else (case retry_Do isRetryable remaining operation w' of
                  (r, w'', n) \<Rightarrow> (r, w'', Suc n)))"

definition attempts :: "err option \<times> 'w \<times> nat \<Rightarrow> nat" where
  "attempts r = snd (snd r)"

definition permanentKind :: "err option \<Rightarrow> bool" where
  "permanentKind e \<longleftrightarrow>
     errors_Is e ErrNotFound \<or> errors_Is e ErrDuplicate \<or> errors_Is e ErrInvalidID \<or>
     errors_Is e ErrForeignKeyViolation \<or> errors_Is e ErrTxAborted"

section \<open>The persistence gateway and the transaction coordinator\<close>

text \<open>
  The service reaches the store only through the three repository interfaces
  (\<^verbatim>\<open>TeamRepository\<close>, \<^verbatim>\<open>UserRepository\<close>, \<^verbatim>\<open>PRRepository\<close>). An implementation is a
  record of functions over a store of any type \<open>'w\<close>; each takes the store and returns its
  reply with the store that results. As in the repositories of the source,
  \<^verbatim>\<open>Create\<close> of a team and of a user writes the generated identifier into the object it
  was given (\<^verbatim>\<open>Scan(&t.ID)\<close>, \<^verbatim>\<open>Scan(&user.ID)\<close>): the reply carries that identifier. A
  successful reply holds a non-nil object.
\<close>

record 'w gateway =
  teamCreate :: "Team \<Rightarrow> 'w \<Rightarrow> (err + uuid) \<times> 'w"
  userGetUserByID :: "uuid \<Rightarrow> 'w \<Rightarrow> (err + User) \<times> 'w"
  userGetActiveByTeam :: "uuid \<Rightarrow> 'w \<Rightarrow> (err + User list) \<times> 'w"
  userCreate :: "User \<Rightarrow> 'w \<Rightarrow> (err + uuid) \<times> 'w"
  userUpdateActive :: "uuid \<Rightarrow> bool \<Rightarrow> 'w \<Rightarrow> err option \<times> 'w"
  prCreate :: "PullRequest \<Rightarrow> 'w \<Rightarrow> err option \<times> 'w"
  prGetByID :: "uuid \<Rightarrow> 'w \<Rightarrow> (err + PullRequest) \<times> 'w"
  prAssignReviewers :: "uuid \<Rightarrow> uuid list \<Rightarrow> 'w \<Rightarrow> err option \<times> 'w"
  prReplaceReviewer :: "uuid \<Rightarrow> uuid \<Rightarrow> uuid \<Rightarrow> 'w \<Rightarrow> err option \<times> 'w"
  prMerge :: "uuid \<Rightarrow> 'w \<Rightarrow> err option \<times> 'w"

text \<open>
  The calls the service issues, in order, are kept next to the store, so that a property
  such as "no mutating call is made" can be stated.
\<close>

datatype call =
    CTeamCreate Team
  | CUserGetUserByID uuid
  | CUserGetActiveByTeam uuid
  | CUserCreate User
  | CUserUpdateActive uuid bool
  | CPRCreate PullRequest
  | CPRGetByID uuid
  | CPRAssignReviewers uuid "uuid list"
  | CPRReplaceReviewer uuid uuid uuid
  | CPRMerge uuid

fun mutating :: "call \<Rightarrow> bool" where
  "mutating (CUserGetUserByID _) = False"
| "mutating (CUserGetActiveByTeam _) = False"
| "mutating (CPRGetByID _) = False"
| "mutating _ = True"

record 'w state =
  db :: 'w
  calls :: "call list"

definition invoke :: "call \<Rightarrow> ('w \<Rightarrow> 'r \<times> 'w) \<Rightarrow> 'w state \<Rightarrow> 'r \<times> 'w state" where
  "invoke c f s = (case f (db s) of (r, d) \<Rightarrow> (r, \<lparr>db = d, calls = calls s @ [c]\<rparr>))"

text \<open>
  What a unit of work ends with, when it does not return nil: an error value, or the
  run-time panic of dereferencing a nil pointer (\<^verbatim>\<open>*author.TeamID\<close> for a user without a
  team).
\<close>

datatype failure = Err err | Panic

text \<open>
  \<^verbatim>\<open>TxManager.Do(ctx, fn)\<close>. The function \<^verbatim>\<open>fn\<close> returns only an error; what it assigns
  to the variables it captures is the first component \<open>'l\<close> of what it works on.
  \<open>TxManagerStub\<close> is the stub of the source, which calls \<^verbatim>\<open>fn\<close> and nothing else;
  \<open>TxManagerTrm\<close> is the transaction manager the application is built with.
\<close>

datatype TxManager = TxManagerStub | TxManagerTrm

text \<open>
  Modelled from the spec: the transaction manager of the application is an external
  library, and the branch \<open>TxManagerTrm\<close> follows section 4.2 of the specification: when
  \<^verbatim>\<open>fn\<close> returns an error the transaction is rolled back and the error is handed on
  unchanged, and when it returns nil the transaction commits. A rollback restores the
  store; the calls that were issued were issued all the same, and the variables of the
  program keep what was assigned to them. The branch \<open>TxManagerStub\<close> is the source's.
\<close>

definition Do ::
  "TxManager \<Rightarrow> ('l \<times> 'w state \<Rightarrow> failure option \<times> 'l \<times> 'w state) \<Rightarrow> 'l \<times> 'w state
     \<Rightarrow> failure option \<times> 'l \<times> 'w state"
where
  "Do tx fn ls =
     (case tx of
        TxManagerStub \<Rightarrow> fn ls
      | TxManagerTrm \<Rightarrow>
          (case fn ls of
             (None, l', s') \<Rightarrow> (None, l', s')
           | (Some f, l', s') \<Rightarrow> (Some f, l', s'\<lparr>db := db (snd ls)\<rparr>)))"

section \<open>The service (internal/service)\<close>

subsection \<open>CreatePR\<close>

definition CreatePR_fn ::
  "'w gateway \<Rightarrow> PullRequest \<Rightarrow> unit \<times> 'w state \<Rightarrow> failure option \<times> unit \<times> 'w state"
where
  "CreatePR_fn g pr ls =
     (case invoke (CPRCreate pr) (prCreate g pr) (snd ls) of
        (Some e, s1) \<Rightarrow> (Some (Err e), (), s1)
      | (None, s1) \<Rightarrow>
     (case invoke (CUserGetUserByID (PR_AuthorID pr)) (userGetUserByID g (PR_AuthorID pr)) s1 of
        (Inl e, s2) \<Rightarrow> (Some (Err e), (), s2)
      | (Inr author, s2) \<Rightarrow>
     (case User_TeamID author of
        None \<Rightarrow> (Some Panic, (), s2)
      | Some teamID \<Rightarrow>
     (case invoke (CUserGetActiveByTeam teamID) (userGetActiveByTeam g teamID) s2 of
        (Inl e, s3) \<Rightarrow> (Some (Err e), (), s3)
      | (Inr activeUsers, s3) \<Rightarrow>
          (let activeUsers' = (if length activeUsers > 2 then take 2 activeUsers else activeUsers);
               uuids = map User_ID activeUsers'
           in case invoke (CPRAssignReviewers (PR_ID pr) uuids)
                     (prAssignReviewers g (PR_ID pr) uuids) s3 of
                (Some e, s4) \<Rightarrow> (Some (Err e), (), s4)
              | (None, s4) \<Rightarrow> (None, (), s4))))))"

definition CreatePR ::
  "'w gateway \<Rightarrow> TxManager \<Rightarrow> PullRequest \<Rightarrow> 'w state \<Rightarrow> failure option \<times> 'w state"
where
  "CreatePR g tx pr s = (case Do tx (CreatePR_fn g pr) ((), s) of (r, _, s') \<Rightarrow> (r, s'))"

subsection \<open>PRMerge\<close>

text \<open>When the fetch fails the variable \<^verbatim>\<open>pr\<close> is not read again: the call returns nil for
  it.\<close>

definition PRMerge_fn ::
  "'w gateway \<Rightarrow> uuid \<Rightarrow> PullRequest \<times> 'w state \<Rightarrow> failure option \<times> PullRequest \<times> 'w state"
where
  "PRMerge_fn g prID ls =
     (case invoke (CPRGetByID prID) (prGetByID g prID) (snd ls) of
        (Inl e, s1) \<Rightarrow> (Some (Err e), fst ls, s1)
      | (Inr pr, s1) \<Rightarrow>
          if PR_Status pr = PRStatusMerged then (None, pr, s1)
          else (case invoke (CPRMerge prID) (prMerge g prID) s1 of
                  (Some e, s2) \<Rightarrow> (Some (Err e), pr, s2)
                | (None, s2) \<Rightarrow> (None, pr, s2)))"

definition PRMerge ::
  "'w gateway \<Rightarrow> TxManager \<Rightarrow> uuid \<Rightarrow> 'w state \<Rightarrow> (failure + PullRequest) \<times> 'w state"
where
  "PRMerge g tx prID s =
     (case Do tx (PRMerge_fn g prID) (zeroPullRequest, s) of
        (Some txErr, _, s') \<Rightarrow> (Inl txErr, s')
      | (None, pr, s') \<Rightarrow> (Inr pr, s'))"

subsection \<open>PRReassign\<close>

text \<open>The two loops that look for an identifier among the reviewers of the PR.\<close>

fun isReviewer :: "PRReviewer list \<Rightarrow> uuid \<Rightarrow> bool" where
  "isReviewer [] uid = False"
| "isReviewer (r # rs) uid = (if Rev_ID r = uid then True else isReviewer rs uid)"

text \<open>
  The search for another active user: \<^verbatim>\<open>newUserID\<close> starts as the zero value and the
  loop stops at the first user that is neither the old reviewer nor a reviewer already.
\<close>

fun searchNewUser :: "User list \<Rightarrow> uuid \<Rightarrow> PRReviewer list \<Rightarrow> uuid" where
  "searchNewUser [] oldUserID reviewers = uuid_Nil"
| "searchNewUser (u # users) oldUserID reviewers =
     (if User_ID u \<noteq> oldUserID then
        (if isReviewer reviewers (User_ID u) then searchNewUser users oldUserID reviewers
         else User_ID u)
      else searchNewUser users oldUserID reviewers)"

definition replaceInMemory :: "PullRequest \<Rightarrow> uuid \<Rightarrow> uuid \<Rightarrow> PullRequest" where
  "replaceInMemory pr oldUserID newUserID =
     pr\<lparr>PR_Reviewers :=
          filter (\<lambda>r. Rev_ID r \<noteq> oldUserID) (PR_Reviewers pr)
          @ [\<lparr>Rev_ID = newUserID, Rev_PRID = PR_ID pr, Rev_AssignedAt = 0\<rparr>]\<rparr>"

definition PRReassign_fn ::
  "'w gateway \<Rightarrow> uuid \<Rightarrow> uuid \<Rightarrow> PullRequest \<times> 'w state
     \<Rightarrow> failure option \<times> PullRequest \<times> 'w state"
where
  "PRReassign_fn g prID oldUserID ls =
     (case invoke (CPRGetByID prID) (prGetByID g prID) (snd ls) of
        (Inl e, s1) \<Rightarrow> (Some (Err e), fst ls, s1)
      | (Inr pr, s1) \<Rightarrow>
     if PR_Status pr = PRStatusMerged then (Some (Err ErrCanNotReassing), pr, s1)
     else if \<not> isReviewer (PR_Reviewers pr) oldUserID then (Some (Err ErrNotAssinged), pr, s1)
     else
     (case invoke (CUserGetUserByID (PR_AuthorID pr)) (userGetUserByID g (PR_AuthorID pr)) s1 of
        (Inl e, s2) \<Rightarrow> (Some (Err e), pr, s2)
      | (Inr author, s2) \<Rightarrow>
     (case User_TeamID author of
        None \<Rightarrow> (Some Panic, pr, s2)
      | Some teamID \<Rightarrow>
     (case invoke (CUserGetActiveByTeam teamID) (userGetActiveByTeam g teamID) s2 of
        (Inl e, s3) \<Rightarrow> (Some (Err e), pr, s3)
      | (Inr users, s3) \<Rightarrow>
          (let newUserID = searchNewUser users oldUserID (PR_Reviewers pr)
           in if newUserID = uuid_Nil then (Some (Err ErrNoAvailableReviewer), pr, s3)
              else (case invoke (CPRReplaceReviewer prID oldUserID newUserID)
                           (prReplaceReviewer g prID oldUserID newUserID) s3 of
                      (Some e, s4) \<Rightarrow> (Some (Err e), pr, s4)
                    | (None, s4) \<Rightarrow> (None, replaceInMemory pr oldUserID newUserID, s4)))))))"

definition PRReassign ::
  "'w gateway \<Rightarrow> TxManager \<Rightarrow> uuid \<Rightarrow> uuid \<Rightarrow> 'w state \<Rightarrow> (failure + PullRequest) \<times> 'w state"
where
  "PRReassign g tx prID oldUserID s =
     (case Do tx (PRReassign_fn g prID oldUserID) (zeroPullRequest, s) of
        (Some trErr, _, s') \<Rightarrow> (Inl trErr, s')
      | (None, pr, s') \<Rightarrow> (Inr pr, s'))"

text \<open>The handler's \<^verbatim>\<open>replacedBy\<close>: the identifier of the last reviewer (a panic on an
  empty list).\<close>

definition replacedBy :: "PullRequest \<Rightarrow> uuid option" where
  "replacedBy pr = (if PR_Reviewers pr = [] then None else Some (Rev_ID (last (PR_Reviewers pr))))"

subsection \<open>TeamAdd\<close>

text \<open>
  The loop over \<^verbatim>\<open>team.Members\<close>: the members already handled, then those still to do.
  Each member gets \<^verbatim>\<open>TeamID = &team.ID\<close> and is then handed to the user gateway, which
  writes the generated identifier into it. On an error the loop stops where it is.
\<close>

fun TeamAdd_members ::
  "'w gateway \<Rightarrow> uuid \<Rightarrow> User list \<Rightarrow> User list \<Rightarrow> 'w state
     \<Rightarrow> failure option \<times> User list \<times> 'w state"
where
  "TeamAdd_members g teamID handled [] s = (None, handled, s)"
| "TeamAdd_members g teamID handled (m # rest) s =
     (let m' = m\<lparr>User_TeamID := Some teamID\<rparr>
      in case invoke (CUserCreate m') (userCreate g m') s of
           (Inl e, s1) \<Rightarrow> (Some (Err e), handled @ m' # rest, s1)
         | (Inr newID, s1) \<Rightarrow>
             TeamAdd_members g teamID (handled @ [m'\<lparr>User_ID := newID\<rparr>]) rest s1)"

definition TeamAdd_fn ::
  "'w gateway \<Rightarrow> Team \<times> 'w state \<Rightarrow> failure option \<times> Team \<times> 'w state"
where
  "TeamAdd_fn g ls =
     (let team = fst ls
      in case invoke (CTeamCreate team) (teamCreate g team) (snd ls) of
           (Inl e, s1) \<Rightarrow>
             if errors_Is (Some e) ErrDuplicate then (Some (Err ErrTeamAlreadyExists), team, s1)
             else (Some (Err e), team, s1)
         | (Inr teamID, s1) \<Rightarrow>
             (case TeamAdd_members g teamID [] (Team_Members team) s1 of
                (r, members, s2) \<Rightarrow> (r, team\<lparr>Team_ID := teamID, Team_Members := members\<rparr>, s2)))"

text \<open>The second component of the result is the team object of the caller as the call
  leaves it.\<close>

definition TeamAdd ::
  "'w gateway \<Rightarrow> TxManager \<Rightarrow> Team \<Rightarrow> 'w state \<Rightarrow> failure option \<times> Team \<times> 'w state"
where
  "TeamAdd g tx team s = Do tx (TeamAdd_fn g) (team, s)"

subsection \<open>UsersSetIsActive\<close>

text \<open>The transaction manager is a field of the service, and this method does not use
  it.\<close>

definition UsersSetIsActive ::
  "'w gateway \<Rightarrow> TxManager \<Rightarrow> uuid \<Rightarrow> bool \<Rightarrow> 'w state \<Rightarrow> (failure + User) \<times> 'w state"
where
  "UsersSetIsActive g tx userID active s =
     (case invoke (CUserUpdateActive userID active) (userUpdateActive g userID active) s of
        (Some e, s1) \<Rightarrow> (Inl (Err e), s1)
      | (None, s1) \<Rightarrow>
          (case invoke (CUserGetUserByID userID) (userGetUserByID g userID) s1 of
             (Inl e, s2) \<Rightarrow> (Inl (Err e), s2)
           | (Inr user, s2) \<Rightarrow> (Inr user, s2)))"

section \<open>An in-memory gateway (internal/repository)\<close>

text \<open>
  A store that holds the rows of the tables and answers as the SQL statements of the
  three repositories do: the users and pull requests in the order of their insertion,
  the reviewer rows of a pull request joined to it as \<^verbatim>\<open>GetByID\<close> assembles them,
  \<open>mem_nextID\<close> standing for \<^verbatim>\<open>uuid_generate_v4()\<close> and \<open>mem_now\<close> for \<^verbatim>\<open>time.Now()\<close>.
\<close>

record MemDB =
  mem_teams :: "Team list"
  mem_users :: "User list"
  mem_prs :: "PullRequest list"
  mem_nextID :: uuid
  mem_now :: timestamp

text \<open>
  Modelled from the spec: the function \<^verbatim>\<open>wrapDBError\<close>, which turns the errors of the
  database driver into the typed errors of the repository, is not among the sources. By
  section 6 of the specification a violated uniqueness constraint is the typed error
  duplicate, a violated reference is foreign-key-violation, and a single-row query
  without a row is not-found; these are the error replies of the definitions that
  follow. A statement that fails leaves the store as it was.
\<close>

definition mem_teamCreate :: "Team \<Rightarrow> MemDB \<Rightarrow> (err + uuid) \<times> MemDB" where
  "mem_teamCreate t d =
     (if list_ex (\<lambda>x. Team_Name x = Team_Name t) (mem_teams d) then (Inl ErrDuplicate, d)
      else (Inr (mem_nextID d),
            d\<lparr>mem_teams := mem_teams d @
                 [\<lparr>Team_ID = mem_nextID d, Team_Name = Team_Name t, Team_Members = []\<rparr>],
              mem_nextID := mem_nextID d + 1\<rparr>))"

definition mem_userGetUserByID :: "uuid \<Rightarrow> MemDB \<Rightarrow> (err + User) \<times> MemDB" where
  "mem_userGetUserByID uid d =
     (case find (\<lambda>u. User_ID u = uid) (mem_users d) of
        None \<Rightarrow> (Inl ErrNotFound, d)
      | Some u \<Rightarrow> (Inr u, d))"

definition mem_userGetActiveByTeam :: "uuid \<Rightarrow> MemDB \<Rightarrow> (err + User list) \<times> MemDB" where
  "mem_userGetActiveByTeam teamID d =
     (Inr (filter (\<lambda>u. User_TeamID u = Some teamID \<and> User_IsActive u) (mem_users d)), d)"

definition mem_userCreate :: "User \<Rightarrow> MemDB \<Rightarrow> (err + uuid) \<times> MemDB" where
  "mem_userCreate u d =
     (if (case User_TeamID u of
            None \<Rightarrow> False
          | Some t \<Rightarrow> \<not> list_ex (\<lambda>x. Team_ID x = t) (mem_teams d))
      then (Inl ErrForeignKeyViolation, d)
      else (Inr (mem_nextID d),
            d\<lparr>mem_users := mem_users d @ [u\<lparr>User_ID := mem_nextID d\<rparr>],
              mem_nextID := mem_nextID d + 1\<rparr>))"

definition mem_userUpdateActive :: "uuid \<Rightarrow> bool \<Rightarrow> MemDB \<Rightarrow> err option \<times> MemDB" where
  "mem_userUpdateActive uid active d =
     (None,
      d\<lparr>mem_users :=
          map (\<lambda>u. if User_ID u = uid then u\<lparr>User_IsActive := active\<rparr> else u) (mem_users d)\<rparr>)"

definition mem_prCreate :: "PullRequest \<Rightarrow> MemDB \<Rightarrow> err option \<times> MemDB" where
  "mem_prCreate pr d =
     (if list_ex (\<lambda>p. PR_ID p = PR_ID pr) (mem_prs d) then (Some ErrDuplicate, d)
      else if \<not> list_ex (\<lambda>u. User_ID u = PR_AuthorID pr) (mem_users d)
      then (Some ErrForeignKeyViolation, d)
      else (None, d\<lparr>mem_prs := mem_prs d @ [pr\<lparr>PR_MergedAt := None, PR_Reviewers := []\<rparr>]\<rparr>))"

text \<open>\<^verbatim>\<open>GetByID\<close> reads the rows of a query in a loop: without a row its result is the
  pull request it started from, with no error.\<close>

definition mem_prGetByID :: "uuid \<Rightarrow> MemDB \<Rightarrow> (err + PullRequest) \<times> MemDB" where
  "mem_prGetByID prID d =
     (case find (\<lambda>p. PR_ID p = prID) (mem_prs d) of
        None \<Rightarrow> (Inr zeroPullRequest, d)
      | Some p \<Rightarrow> (Inr p, d))"

definition mem_prAssignReviewers :: "uuid \<Rightarrow> uuid list \<Rightarrow> MemDB \<Rightarrow> err option \<times> MemDB" where
  "mem_prAssignReviewers prID reviewers d =
     (if \<not> distinct reviewers then (Some ErrDuplicate, d)
      else if \<not> list_all (\<lambda>i. list_ex (\<lambda>u. User_ID u = i) (mem_users d)) reviewers
      then (Some ErrForeignKeyViolation, d)
      else (None,
            d\<lparr>mem_prs :=
                map (\<lambda>p. if PR_ID p = prID
                          then p\<lparr>PR_Reviewers :=
                                   map (\<lambda>i. \<lparr>Rev_ID = i, Rev_PRID = prID,
                                              Rev_AssignedAt = mem_now d\<rparr>) reviewers\<rparr>
                          else p) (mem_prs d)\<rparr>))"

definition mem_prReplaceReviewer :: "uuid \<Rightarrow> uuid \<Rightarrow> uuid \<Rightarrow> MemDB \<Rightarrow> err option \<times> MemDB" where
  "mem_prReplaceReviewer prID oldID newID d =
     (if \<not> list_ex (\<lambda>p. PR_ID p = prID \<and> isReviewer (PR_Reviewers p) oldID) (mem_prs d)
      then (Some ErrNotFound, d)
      else if \<not> list_ex (\<lambda>u. User_ID u = newID) (mem_users d)
      then (Some ErrForeignKeyViolation, d)
      else (None,
            d\<lparr>mem_prs :=
                map (\<lambda>p. if PR_ID p = prID
                          then (let kept = filter (\<lambda>r. Rev_ID r \<noteq> oldID) (PR_Reviewers p)
                                in p\<lparr>PR_Reviewers :=
                                       (if isReviewer kept newID then kept
                                        else kept @ [\<lparr>Rev_ID = newID, Rev_PRID = prID,
                                                      Rev_AssignedAt = mem_now d\<rparr>])\<rparr>)
                          else p) (mem_prs d)\<rparr>))"

definition mem_prMerge :: "uuid \<Rightarrow> MemDB \<Rightarrow> err option \<times> MemDB" where
  "mem_prMerge prID d =
     (None,
      d\<lparr>mem_prs :=
          map (\<lambda>p. if PR_ID p = prID
                    then p\<lparr>PR_Status := PRStatusMerged, PR_MergedAt := Some (mem_now d)\<rparr>
                    else p) (mem_prs d)\<rparr>)"

definition memGateway :: "MemDB gateway" where
  "memGateway =
     \<lparr>teamCreate = mem_teamCreate,
      userGetUserByID = mem_userGetUserByID,
      userGetActiveByTeam = mem_userGetActiveByTeam,
      userCreate = mem_userCreate,
      userUpdateActive = mem_userUpdateActive,
      prCreate = mem_prCreate,
      prGetByID = mem_prGetByID,
      prAssignReviewers = mem_prAssignReviewers,
      prReplaceReviewer = mem_prReplaceReviewer,
      prMerge = mem_prMerge\<rparr>"

section \<open>A concrete store for running the service\<close>

text \<open>
  One team with three active members, the pull request number 7 of the first member, and
  the stores the operations below lead it through.
\<close>

definition alice :: User where
  "alice = \<lparr>User_ID = 11, User_TeamID = Some 1, User_Name = ''alice'', User_IsActive = True\<rparr>"

definition bob :: User where
  "bob = \<lparr>User_ID = 12, User_TeamID = Some 1, User_Name = ''bob'', User_IsActive = True\<rparr>"

definition carol :: User where
  "carol = \<lparr>User_ID = 13, User_TeamID = Some 1, User_Name = ''carol'', User_IsActive = True\<rparr>"

definition zed :: User where
  "zed = \<lparr>User_ID = 0, User_TeamID = Some 1, User_Name = ''zed'', User_IsActive = True\<rparr>"

definition exampleDB :: MemDB where
  "exampleDB =
     \<lparr>mem_teams = [\<lparr>Team_ID = 1, Team_Name = ''backend'', Team_Members = []\<rparr>],
      mem_users = [alice, bob, carol], mem_prs = [], mem_nextID = 100, mem_now = 1000\<rparr>"

definition examplePR :: PullRequest where
  "examplePR =
     \<lparr>PR_ID = 7, PR_Name = ''feature'', PR_AuthorID = 11, PR_Status = PRStatusOpen,
      PR_CreatedAt = 900, PR_MergedAt = None, PR_Reviewers = []\<rparr>"

text \<open>The pull request as stored once its reviewers are assigned, and once it is merged.\<close>

definition assignedPR :: PullRequest where
  "assignedPR =
     examplePR\<lparr>PR_Reviewers :=
       [\<lparr>Rev_ID = 11, Rev_PRID = 7, Rev_AssignedAt = 1000\<rparr>,
        \<lparr>Rev_ID = 12, Rev_PRID = 7, Rev_AssignedAt = 1000\<rparr>]\<rparr>"

definition mergedPR :: PullRequest where
  "mergedPR = assignedPR\<lparr>PR_Status := PRStatusMerged, PR_MergedAt := Some 1000\<rparr>"

definition stateEmpty :: "MemDB state" where
  "stateEmpty = \<lparr>db = exampleDB, calls = []\<rparr>"

definition stateCreated :: "MemDB state" where
  "stateCreated =
     \<lparr>db = exampleDB\<lparr>mem_prs := [assignedPR]\<rparr>,
      calls = [CPRCreate examplePR, CUserGetUserByID 11, CUserGetActiveByTeam 1,
               CPRAssignReviewers 7 [11, 12]]\<rparr>"

definition stateOpen :: "MemDB state" where
  "stateOpen = \<lparr>db = exampleDB\<lparr>mem_prs := [assignedPR]\<rparr>, calls = []\<rparr>"

definition stateMerged :: "MemDB state" where
  "stateMerged =
     \<lparr>db = exampleDB\<lparr>mem_prs := [mergedPR]\<rparr>, calls = [CPRGetByID 7, CPRMerge 7]\<rparr>"

text \<open>The pull request the reassignment of reviewer 12 returns, and the store after it.\<close>

definition reassignedPR :: PullRequest where
  "reassignedPR =
     examplePR\<lparr>PR_Reviewers :=
       [\<lparr>Rev_ID = 11, Rev_PRID = 7, Rev_AssignedAt = 1000\<rparr>,
        \<lparr>Rev_ID = 13, Rev_PRID = 7, Rev_AssignedAt = 0\<rparr>]\<rparr>"

definition stateReassigned :: "MemDB state" where
  "stateReassigned =
     \<lparr>db = exampleDB\<lparr>mem_prs :=
        [examplePR\<lparr>PR_Reviewers :=
           [\<lparr>Rev_ID = 11, Rev_PRID = 7, Rev_AssignedAt = 1000\<rparr>,
            \<lparr>Rev_ID = 13, Rev_PRID = 7, Rev_AssignedAt = 1000\<rparr>]\<rparr>]\<rparr>,
      calls = [CPRGetByID 7, CUserGetUserByID 11, CUserGetActiveByTeam 1,
               CPRReplaceReviewer 7 12 13]\<rparr>"

text \<open>The same store with the third member inactive, and with a third member whose
  identifier is the zero UUID.\<close>

definition stateNoCandidate :: "MemDB state" where
  "stateNoCandidate =
     \<lparr>db = exampleDB\<lparr>mem_users := [alice, bob, carol\<lparr>User_IsActive := False\<rparr>],
                     mem_prs := [assignedPR]\<rparr>,
      calls = []\<rparr>"

definition stateZeroUser :: "MemDB state" where
  "stateZeroUser =
     \<lparr>db = exampleDB\<lparr>mem_users := [alice, bob, zed], mem_prs := [assignedPR]\<rparr>, calls = []\<rparr>"

text \<open>A gateway over the same store whose reads of a user fail with a transient error.\<close>

definition flakyGateway :: "MemDB gateway" where
  "flakyGateway =
     memGateway\<lparr>userGetUserByID := (\<lambda>uid d. (Inl (ErrOther ''connection reset''), d))\<rparr>"

text \<open>A team to add, as the handler builds it: no identifier yet, members without a
  team.\<close>

definition newTeam :: Team where
  "newTeam =
     \<lparr>Team_ID = 0, Team_Name = ''frontend'',
      Team_Members =
        [\<lparr>User_ID = 21, User_TeamID = None, User_Name = ''dave'', User_IsActive = True\<rparr>,
         \<lparr>User_ID = 22, User_TeamID = None, User_Name = ''erin'', User_IsActive = True\<rparr>]\<rparr>"

definition addedTeam :: Team where
  "addedTeam =
     \<lparr>Team_ID = 100, Team_Name = ''frontend'',
      Team_Members =
        [\<lparr>User_ID = 101, User_TeamID = Some 100, User_Name = ''dave'', User_IsActive = True\<rparr>,
         \<lparr>User_ID = 102, User_TeamID = Some 100, User_Name = ''erin'', User_IsActive = True\<rparr>]\<rparr>"

definition stateTeamAdded :: "MemDB state" where
  "stateTeamAdded =
     \<lparr>db = exampleDB\<lparr>
        mem_teams := [\<lparr>Team_ID = 1, Team_Name = ''backend'', Team_Members = []\<rparr>,
                      \<lparr>Team_ID = 100, Team_Name = ''frontend'', Team_Members = []\<rparr>],
        mem_users := [alice, bob, carol] @ Team_Members addedTeam,
        mem_nextID := 103\<rparr>,
      calls =
        [CTeamCreate newTeam,
         CUserCreate \<lparr>User_ID = 21, User_TeamID = Some 100, User_Name = ''dave'',
                      User_IsActive = True\<rparr>,
         CUserCreate \<lparr>User_ID = 22, User_TeamID = Some 100, User_Name = ''erin'',
                      User_IsActive = True\<rparr>]\<rparr>"

section \<open>Properties of the retry classification\<close>

lemma isRetryableFunc_iff: "isRetryableFunc e \<longleftrightarrow> \<not> permanentKind e"
  by (auto simp add: isRetryableFunc_def unretryableErrors_def permanentKind_def)

lemma retry_Do_permanent:
  assumes "\<And>w. fst (operation w) = Some x" and "\<not> cls (Some x)"
  shows "attempts (retry_Do cls (Suc k) operation w) = 1"
proof -
  obtain w' where "operation w = (Some x, w')"
    using assms(1) [of w] by (cases "operation w") auto
  then show ?thesis
    using assms(2) by (simp add: attempts_def)
qed

lemma retry_Do_transient:
  assumes "\<And>w. fst (operation w) = Some x" and "cls (Some x)"
  shows "attempts (retry_Do cls (Suc k) operation w) = Suc k
         \<and> fst (retry_Do cls (Suc k) operation w) = Some x"
proof (induction k arbitrary: w)
  case 0
  obtain w' where "operation w = (Some x, w')"
    using assms(1) [of w] by (cases "operation w") auto
  then show ?case by (simp add: attempts_def)
next
  case (Suc k)
  obtain w' where op: "operation w = (Some x, w')"
    using assms(1) [of w] by (cases "operation w") auto
  obtain r w'' n where rec: "retry_Do cls (Suc k) operation w' = (r, w'', n)"
    by (cases "retry_Do cls (Suc k) operation w'") auto
  from Suc.IH [of w'] rec have "n = Suc k" and "r = Some x"
    by (simp_all add: attempts_def)
  with op rec assms(2) show ?case
    by (simp add: attempts_def)
qed

text \<open>
  Claim C4. The classifier answers false exactly for the errors that match, through
  \<^verbatim>\<open>errors.Is\<close>, one of not-found, duplicate-key, invalid-identifier,
  foreign-key-violation and transaction-aborted, and true for every other error. Under
  the retry loop of the specification, an operation that keeps failing with an error of
  one of the five kinds is invoked exactly once, and one that keeps failing with any
  other error is invoked as many times as the configured cap, the last error being
  returned.
\<close>

theorem isRetryableFunc_classification:
  "(isRetryableFunc e = False \<longleftrightarrow>
      errors_Is e ErrNotFound \<or> errors_Is e ErrDuplicate \<or> errors_Is e ErrInvalidID \<or>
      errors_Is e ErrForeignKeyViolation \<or> errors_Is e ErrTxAborted)
   \<and> (0 < maxAttempts \<longrightarrow> (\<forall>w. fst (operation w) = Some x) \<longrightarrow>
        attempts (retry_Do isRetryableFunc maxAttempts operation w0) =
          (if permanentKind (Some x) then 1 else maxAttempts)
        \<and> (\<not> permanentKind (Some x) \<longrightarrow>
             fst (retry_Do isRetryableFunc maxAttempts operation w0) = Some x))"
proof (intro conjI impI)
  show "isRetryableFunc e = False \<longleftrightarrow>
      errors_Is e ErrNotFound \<or> errors_Is e ErrDuplicate \<or> errors_Is e ErrInvalidID \<or>
      errors_Is e ErrForeignKeyViolation \<or> errors_Is e ErrTxAborted"
    using isRetryableFunc_iff [of e] by (simp add: permanentKind_def)
next
  assume pos: "0 < maxAttempts" and fails: "\<forall>w. fst (operation w) = Some x"
  from pos obtain k where k: "maxAttempts = Suc k"
    by (cases maxAttempts) auto
  show "attempts (retry_Do isRetryableFunc maxAttempts operation w0) =
          (if permanentKind (Some x) then 1 else maxAttempts)"
  proof (cases "permanentKind (Some x)")
    case True
    then have "\<not> isRetryableFunc (Some x)" by (simp add: isRetryableFunc_iff)
    with fails True show ?thesis
      unfolding k using retry_Do_permanent [of operation x isRetryableFunc k w0] by simp
  next
    case False
    then have "isRetryableFunc (Some x)" by (simp add: isRetryableFunc_iff)
    with fails False show ?thesis
      unfolding k using retry_Do_transient [of operation x isRetryableFunc k w0] by simp
  qed
next
  assume pos: "0 < maxAttempts" and fails: "\<forall>w. fst (operation w) = Some x"
    and np: "\<not> permanentKind (Some x)"
  from pos obtain k where k: "maxAttempts = Suc k"
    by (cases maxAttempts) auto
  from np have "isRetryableFunc (Some x)" by (simp add: isRetryableFunc_iff)
  with fails show "fst (retry_Do isRetryableFunc maxAttempts operation w0) = Some x"
    unfolding k using retry_Do_transient [of operation x isRetryableFunc k w0] by simp
qed

theorem isRetryableFunc_classification_witness:
  "(0::nat) < 3
   \<and> (\<forall>w::nat. fst ((\<lambda>w. (Some (ErrOther ''connection reset''), Suc w)) w)
                  = Some (ErrOther ''connection reset''))
   \<and> isRetryableFunc (Some (Wrapped ''get user'' ErrNotFound)) = False
   \<and> attempts (retry_Do isRetryableFunc 3
        (\<lambda>w::nat. (Some (ErrOther ''connection reset''), Suc w)) 0) = 3
   \<and> fst (retry_Do isRetryableFunc 3
        (\<lambda>w::nat. (Some (ErrOther ''connection reset''), Suc w)) 0)
       = Some (ErrOther ''connection reset'')"
  using isRetryableFunc_classification
    [of "Some (Wrapped ''get user'' ErrNotFound)" 3
        "\<lambda>w::nat. (Some (ErrOther ''connection reset''), Suc w)"
        "ErrOther ''connection reset''" 0]
  by (simp add: permanentKind_def errors_Is_def)

lemma invoke_eq:
  "f (db s) = (r, d) \<Longrightarrow> invoke c f s = (r, \<lparr>db = d, calls = calls s @ [c]\<rparr>)"
  by (simp add: invoke_def)

lemma Do_None:
  "Do tx fn ls = (None, l', s') \<longleftrightarrow> fn ls = (None, l', s')"
  by (cases tx) (auto simp: Do_def split: prod.splits option.splits)

lemma Do_Some:
  "fn ls = (Some f, l', s') \<Longrightarrow>
   Do tx fn ls =
     (Some f, l', (case tx of TxManagerStub \<Rightarrow> s' | TxManagerTrm \<Rightarrow> s'\<lparr>db := db (snd ls)\<rparr>))"
  by (cases tx) (auto simp: Do_def)

lemma CreatePR_fn_success:
  assumes "CreatePR_fn g pr ((), s) = (None, (), s')"
  shows "\<exists>d1 author d2 teamID pool d3 d4.
           prCreate g pr (db s) = (None, d1)
         \<and> userGetUserByID g (PR_AuthorID pr) d1 = (Inr author, d2)
         \<and> User_TeamID author = Some teamID
         \<and> userGetActiveByTeam g teamID d2 = (Inr pool, d3)
         \<and> prAssignReviewers g (PR_ID pr) (map User_ID (take 2 pool)) d3 = (None, d4)
         \<and> s' = \<lparr>db = d4, calls = calls s @
                [CPRCreate pr, CUserGetUserByID (PR_AuthorID pr), CUserGetActiveByTeam teamID,
                 CPRAssignReviewers (PR_ID pr) (map User_ID (take 2 pool))]\<rparr>"
  using assms
  by (auto simp: CreatePR_fn_def invoke_def Let_def
           split: prod.splits option.splits sum.splits if_splits)

lemma CreatePR_success:
  assumes "CreatePR g tx pr s = (None, s')"
  shows "CreatePR_fn g pr ((), s) = (None, (), s')"
proof -
  from assms obtain l where "Do tx (CreatePR_fn g pr) ((), s) = (None, l, s')"
    by (auto simp: CreatePR_def split: prod.splits)
  then show ?thesis by (simp add: Do_None)
qed

text \<open>
  Claim C2. Whenever \<^verbatim>\<open>CreatePR\<close> succeeds, the author was resolved, the pool of active
  users of the author's team was fetched, and the one call of \<^verbatim>\<open>AssignReviewers\<close> carries
  the identifiers of the first two users of that pool in the order of the gateway (all of
  them when the pool has fewer than two): their number is the smaller of 2 and the size
  of the pool, zero for an empty pool.
\<close>

theorem CreatePR_persists_first_two:
  assumes "CreatePR g tx pr s = (None, s')"
  shows "\<exists>d1 author d2 teamID pool d3.
           prCreate g pr (db s) = (None, d1)
         \<and> userGetUserByID g (PR_AuthorID pr) d1 = (Inr author, d2)
         \<and> User_TeamID author = Some teamID
         \<and> userGetActiveByTeam g teamID d2 = (Inr pool, d3)
         \<and> prAssignReviewers g (PR_ID pr) (map User_ID (take 2 pool)) d3 = (None, db s')
         \<and> calls s' = calls s @
              [CPRCreate pr, CUserGetUserByID (PR_AuthorID pr), CUserGetActiveByTeam teamID,
               CPRAssignReviewers (PR_ID pr) (map User_ID (take 2 pool))]
         \<and> length (map User_ID (take 2 pool)) = min 2 (length pool)"
proof -
  from CreatePR_fn_success [OF CreatePR_success [OF assms]]
  obtain d1 author d2 teamID pool d3 d4 where
    "prCreate g pr (db s) = (None, d1)"
    "userGetUserByID g (PR_AuthorID pr) d1 = (Inr author, d2)"
    "User_TeamID author = Some teamID"
    "userGetActiveByTeam g teamID d2 = (Inr pool, d3)"
    "prAssignReviewers g (PR_ID pr) (map User_ID (take 2 pool)) d3 = (None, d4)"
    "s' = \<lparr>db = d4, calls = calls s @
                [CPRCreate pr, CUserGetUserByID (PR_AuthorID pr), CUserGetActiveByTeam teamID,
                 CPRAssignReviewers (PR_ID pr) (map User_ID (take 2 pool))]\<rparr>"
    by blast
  then show ?thesis
    by (intro exI [of _ d1] exI [of _ author] exI [of _ d2] exI [of _ teamID]
          exI [of _ pool] exI [of _ d3]) (simp add: min.commute)
qed

text \<open>
  Claim C5, as amended. For a team of three active members with distinct identifiers and
  a pull request authored by one of them, a successful \<^verbatim>\<open>CreatePR\<close> assigns exactly two
  distinct reviewers, the first two users of the pool in the order of the gateway; neither
  of them is the author exactly when the author is the third user of the pool.
\<close>

theorem CreatePR_three_member_team:
  assumes success: "CreatePR g tx pr s = (None, s')"
    and created: "prCreate g pr (db s) = (None, d1)"
    and author: "userGetUserByID g (PR_AuthorID pr) d1 = (Inr author, d2)"
    and team: "User_TeamID author = Some teamID"
    and pool: "userGetActiveByTeam g teamID d2 = (Inr pool, d3)"
    and three: "length pool = 3"
    and dist: "distinct (map User_ID pool)"
    and member: "PR_AuthorID pr \<in> set (map User_ID pool)"
  shows "last (calls s') = CPRAssignReviewers (PR_ID pr) [User_ID (pool ! 0), User_ID (pool ! 1)]
       \<and> User_ID (pool ! 0) \<noteq> User_ID (pool ! 1)
       \<and> (PR_AuthorID pr \<notin> {User_ID (pool ! 0), User_ID (pool ! 1)}
            \<longleftrightarrow> PR_AuthorID pr = User_ID (pool ! 2))"
proof -
  from three obtain a b c where abc: "pool = [a, b, c]"
    by (cases pool; cases "tl pool"; cases "tl (tl pool)") auto
  from CreatePR_fn_success [OF CreatePR_success [OF success]] created author team pool
  have "calls s' = calls s @
          [CPRCreate pr, CUserGetUserByID (PR_AuthorID pr), CUserGetActiveByTeam teamID,
           CPRAssignReviewers (PR_ID pr) (map User_ID (take 2 pool))]"
    by auto
  with abc dist member show ?thesis
    by auto
qed


lemma PRMerge_fn_merged:
  assumes "prGetByID g prID (db s) = (Inr pr, d1)" and "PR_Status pr = PRStatusMerged"
  shows "PRMerge_fn g prID (l, s) = (None, pr, \<lparr>db = d1, calls = calls s @ [CPRGetByID prID]\<rparr>)"
  using assms by (simp add: PRMerge_fn_def invoke_def)

lemma PRMerge_fn_open:
  assumes "prGetByID g prID (db s) = (Inr pr, d1)" and "PR_Status pr \<noteq> PRStatusMerged"
    and "prMerge g prID d1 = (None, d2)"
  shows "PRMerge_fn g prID (l, s) =
           (None, pr, \<lparr>db = d2, calls = calls s @ [CPRGetByID prID, CPRMerge prID]\<rparr>)"
  using assms by (simp add: PRMerge_fn_def invoke_def)

lemma PRMerge_fn_success:
  assumes "PRMerge_fn g prID (l, s) = (None, pr, s')"
  shows "\<exists>d1. prGetByID g prID (db s) = (Inr pr, d1) \<and>
           (if PR_Status pr = PRStatusMerged
            then s' = \<lparr>db = d1, calls = calls s @ [CPRGetByID prID]\<rparr>
            else \<exists>d2. prMerge g prID d1 = (None, d2) \<and>
                   s' = \<lparr>db = d2, calls = calls s @ [CPRGetByID prID, CPRMerge prID]\<rparr>)"
  using assms
  by (auto simp: PRMerge_fn_def invoke_def split: prod.splits option.splits sum.splits if_splits)

lemma PRMerge_Inr:
  "PRMerge g tx prID s = (Inr pr, s') \<longleftrightarrow> PRMerge_fn g prID (zeroPullRequest, s) = (None, pr, s')"
proof
  assume "PRMerge g tx prID s = (Inr pr, s')"
  then have "Do tx (PRMerge_fn g prID) (zeroPullRequest, s) = (None, pr, s')"
    by (auto simp: PRMerge_def split: prod.splits option.splits)
  then show "PRMerge_fn g prID (zeroPullRequest, s) = (None, pr, s')"
    by (simp add: Do_None)
next
  assume "PRMerge_fn g prID (zeroPullRequest, s) = (None, pr, s')"
  then have "Do tx (PRMerge_fn g prID) (zeroPullRequest, s) = (None, pr, s')"
    by (simp add: Do_None)
  then show "PRMerge g tx prID s = (Inr pr, s')"
    by (simp add: PRMerge_def)
qed

text \<open>
  Claim C3, as amended. When the pull request that \<^verbatim>\<open>PRMerge\<close> fetches has status
  MERGED, the call returns the fetched record unchanged with a nil error and issues no
  call but the fetch, so \<^verbatim>\<open>Merge\<close> is not called. When such a call follows a successful
  merge of the same pull request that was not merged before, the two calls together issue
  exactly one mutating call, the \<^verbatim>\<open>Merge\<close> of the first.
\<close>

theorem PRMerge_already_merged:
  assumes fetch: "prGetByID g prID (db s) = (Inr pr, d1)"
    and merged: "PR_Status pr = PRStatusMerged"
  shows "PRMerge g tx prID s = (Inr pr, \<lparr>db = d1, calls = calls s @ [CPRGetByID prID]\<rparr>)
       \<and> (\<forall>s0 pr0. PRMerge g tx prID s0 = (Inr pr0, s) \<and> PR_Status pr0 \<noteq> PRStatusMerged \<longrightarrow>
            filter mutating (drop (length (calls s0)) (calls (snd (PRMerge g tx prID s))))
              = [CPRMerge prID])"
proof (intro conjI allI impI)
  show second: "PRMerge g tx prID s = (Inr pr, \<lparr>db = d1, calls = calls s @ [CPRGetByID prID]\<rparr>)"
    using PRMerge_fn_merged [OF fetch merged] by (simp add: PRMerge_Inr)
  fix s0 pr0
  assume first: "PRMerge g tx prID s0 = (Inr pr0, s) \<and> PR_Status pr0 \<noteq> PRStatusMerged"
  then have "PRMerge_fn g prID (zeroPullRequest, s0) = (None, pr0, s)"
    by (simp add: PRMerge_Inr)
  from PRMerge_fn_success [OF this] first
  have "calls s = calls s0 @ [CPRGetByID prID, CPRMerge prID]"
    by auto
  with second show "filter mutating (drop (length (calls s0)) (calls (snd (PRMerge g tx prID s))))
              = [CPRMerge prID]"
    by simp
qed

text \<open>
  Claim C6. When \<^verbatim>\<open>PRMerge\<close> fetches a pull request with status OPEN, not merged so
  far and so without a merge time, and the merge succeeds, the pull request returned is
  the one fetched before the mutation: its status is still OPEN and its merge time is
  still nil; the merge is not visible in the value returned.
\<close>

theorem PRMerge_returns_fetched:
  assumes fetch: "prGetByID g prID (db s) = (Inr pr, d1)"
    and "open": "PR_Status pr = PRStatusOpen"
    and unmerged: "PR_MergedAt pr = None"
    and merge: "prMerge g prID d1 = (None, d2)"
  shows "\<exists>r. PRMerge g tx prID s =
               (Inr r, \<lparr>db = d2, calls = calls s @ [CPRGetByID prID, CPRMerge prID]\<rparr>)
           \<and> r = pr \<and> PR_Status r = PRStatusOpen \<and> PR_MergedAt r = None"
proof -
  from "open" have "PR_Status pr \<noteq> PRStatusMerged"
    by (simp add: PRStatusOpen_def PRStatusMerged_def)
  from PRMerge_fn_open [OF fetch this merge]
  have "PRMerge g tx prID s =
          (Inr pr, \<lparr>db = d2, calls = calls s @ [CPRGetByID prID, CPRMerge prID]\<rparr>)"
    by (simp add: PRMerge_Inr)
  with "open" unmerged show ?thesis by simp
qed


lemma isReviewer_iff: "isReviewer rs uid \<longleftrightarrow> uid \<in> Rev_ID ` set rs"
  by (induction rs) auto

lemma searchNewUser_find:
  "searchNewUser users oldUserID rs =
     (case find (\<lambda>u. User_ID u \<noteq> oldUserID \<and> User_ID u \<notin> Rev_ID ` set rs) users of
        None \<Rightarrow> uuid_Nil
      | Some u \<Rightarrow> User_ID u)"
  by (induction users) (auto simp: isReviewer_iff)

lemma searchNewUser_chosen:
  assumes "searchNewUser users oldUserID rs \<noteq> uuid_Nil"
  shows "searchNewUser users oldUserID rs \<noteq> oldUserID
       \<and> searchNewUser users oldUserID rs \<notin> Rev_ID ` set rs
       \<and> searchNewUser users oldUserID rs \<in> User_ID ` set users"
  using assms
  by (induction users) (auto simp: isReviewer_iff split: if_splits)

lemma PRReassign_fn_success:
  assumes "PRReassign_fn g prID oldUserID (l, s) = (None, pr', s')"
  shows "\<exists>pr d1 author d2 teamID users d3 d4.
           prGetByID g prID (db s) = (Inr pr, d1)
         \<and> PR_Status pr \<noteq> PRStatusMerged
         \<and> isReviewer (PR_Reviewers pr) oldUserID
         \<and> userGetUserByID g (PR_AuthorID pr) d1 = (Inr author, d2)
         \<and> User_TeamID author = Some teamID
         \<and> userGetActiveByTeam g teamID d2 = (Inr users, d3)
         \<and> searchNewUser users oldUserID (PR_Reviewers pr) \<noteq> uuid_Nil
         \<and> prReplaceReviewer g prID oldUserID (searchNewUser users oldUserID (PR_Reviewers pr)) d3
             = (None, d4)
         \<and> pr' = replaceInMemory pr oldUserID (searchNewUser users oldUserID (PR_Reviewers pr))
         \<and> s' = \<lparr>db = d4, calls = calls s @
                [CPRGetByID prID, CUserGetUserByID (PR_AuthorID pr), CUserGetActiveByTeam teamID,
                 CPRReplaceReviewer prID oldUserID
                   (searchNewUser users oldUserID (PR_Reviewers pr))]\<rparr>"
  using assms
  by (auto simp: PRReassign_fn_def invoke_def Let_def
           split: prod.splits option.splits sum.splits if_splits)

lemma PRReassign_Inr:
  "PRReassign g tx prID oldUserID s = (Inr pr, s') \<longleftrightarrow>
   PRReassign_fn g prID oldUserID (zeroPullRequest, s) = (None, pr, s')"
proof
  assume "PRReassign g tx prID oldUserID s = (Inr pr, s')"
  then have "Do tx (PRReassign_fn g prID oldUserID) (zeroPullRequest, s) = (None, pr, s')"
    by (auto simp: PRReassign_def split: prod.splits option.splits)
  then show "PRReassign_fn g prID oldUserID (zeroPullRequest, s) = (None, pr, s')"
    by (simp add: Do_None)
next
  assume "PRReassign_fn g prID oldUserID (zeroPullRequest, s) = (None, pr, s')"
  then have "Do tx (PRReassign_fn g prID oldUserID) (zeroPullRequest, s) = (None, pr, s')"
    by (simp add: Do_None)
  then show "PRReassign g tx prID oldUserID s = (Inr pr, s')"
    by (simp add: PRReassign_def)
qed

lemma replaceInMemory_reviewers:
  assumes "newUserID \<noteq> oldUserID" and "newUserID \<notin> Rev_ID ` set (PR_Reviewers pr)"
  shows "oldUserID \<notin> Rev_ID ` set (PR_Reviewers (replaceInMemory pr oldUserID newUserID))"
    and "count_list (map Rev_ID (PR_Reviewers (replaceInMemory pr oldUserID newUserID))) newUserID = 1"
    and "PR_Reviewers (replaceInMemory pr oldUserID newUserID) \<noteq> []"
    and "Rev_ID (last (PR_Reviewers (replaceInMemory pr oldUserID newUserID))) = newUserID"
proof -
  have "newUserID \<notin> set (map Rev_ID (filter (\<lambda>r. Rev_ID r \<noteq> oldUserID) (PR_Reviewers pr)))"
    using assms(2) by auto
  then have "count_list (map Rev_ID (filter (\<lambda>r. Rev_ID r \<noteq> oldUserID) (PR_Reviewers pr))) newUserID = 0"
    by (simp add: count_list_0_iff)
  then show "count_list (map Rev_ID (PR_Reviewers (replaceInMemory pr oldUserID newUserID))) newUserID = 1"
    by (simp add: replaceInMemory_def)
  show "oldUserID \<notin> Rev_ID ` set (PR_Reviewers (replaceInMemory pr oldUserID newUserID))"
    using assms(1) by (auto simp: replaceInMemory_def)
  show "PR_Reviewers (replaceInMemory pr oldUserID newUserID) \<noteq> []"
    by (simp add: replaceInMemory_def)
  show "Rev_ID (last (PR_Reviewers (replaceInMemory pr oldUserID newUserID))) = newUserID"
    by (simp add: replaceInMemory_def)
qed

text \<open>
  Claim C1. After every successful \<^verbatim>\<open>PRReassign\<close>, with \<open>newUserID\<close> the identifier
  that was handed to \<^verbatim>\<open>ReplaceReviewer\<close>, the reviewers of the returned pull request do
  not contain the old reviewer, contain the new one exactly once, and end with the new
  one, which is what the handler reports as \<^verbatim>\<open>replaced_by\<close>.
\<close>

theorem PRReassign_reviewer_list:
  assumes "PRReassign g tx prID oldUserID s = (Inr pr', s')"
  shows "\<exists>newUserID.
           last (calls s') = CPRReplaceReviewer prID oldUserID newUserID
         \<and> oldUserID \<notin> Rev_ID ` set (PR_Reviewers pr')
         \<and> count_list (map Rev_ID (PR_Reviewers pr')) newUserID = 1
         \<and> PR_Reviewers pr' \<noteq> []
         \<and> Rev_ID (last (PR_Reviewers pr')) = newUserID
         \<and> replacedBy pr' = Some newUserID"
proof -
  from assms have "PRReassign_fn g prID oldUserID (zeroPullRequest, s) = (None, pr', s')"
    by (simp add: PRReassign_Inr)
  from PRReassign_fn_success [OF this]
  obtain pr users teamID d4 where
    chosen: "searchNewUser users oldUserID (PR_Reviewers pr) \<noteq> uuid_Nil"
    and pr': "pr' = replaceInMemory pr oldUserID (searchNewUser users oldUserID (PR_Reviewers pr))"
    and s': "s' = \<lparr>db = d4, calls = calls s @
                [CPRGetByID prID, CUserGetUserByID (PR_AuthorID pr), CUserGetActiveByTeam teamID,
                 CPRReplaceReviewer prID oldUserID
                   (searchNewUser users oldUserID (PR_Reviewers pr))]\<rparr>"
    by blast
  let ?new = "searchNewUser users oldUserID (PR_Reviewers pr)"
  from searchNewUser_chosen [OF chosen]
  have ne: "?new \<noteq> oldUserID" and fresh: "?new \<notin> Rev_ID ` set (PR_Reviewers pr)"
    by simp_all
  note props = replaceInMemory_reviewers [OF ne fresh]
  have "last (calls s') = CPRReplaceReviewer prID oldUserID ?new"
    by (simp add: s')
  moreover have "replacedBy pr' = Some ?new"
    using props(3,4) by (simp add: replacedBy_def pr')
  ultimately show ?thesis
    using props by (intro exI [of _ ?new]) (simp add: pr')
qed


lemma PRReassign_fn_no_reviewer:
  assumes "prGetByID g prID (db s) = (Inr pr, d1)"
    and "PR_Status pr \<noteq> PRStatusMerged"
    and "isReviewer (PR_Reviewers pr) oldUserID"
    and "userGetUserByID g (PR_AuthorID pr) d1 = (Inr author, d2)"
    and "User_TeamID author = Some teamID"
    and "userGetActiveByTeam g teamID d2 = (Inr users, d3)"
    and "searchNewUser users oldUserID (PR_Reviewers pr) = uuid_Nil"
  shows "PRReassign_fn g prID oldUserID (l, s) =
           (Some (Err ErrNoAvailableReviewer), pr,
            \<lparr>db = d3, calls = calls s @
               [CPRGetByID prID, CUserGetUserByID (PR_AuthorID pr),
                CUserGetActiveByTeam teamID]\<rparr>)"
  using assms by (simp add: PRReassign_fn_def invoke_def)

lemma PRReassign_Inl:
  assumes "PRReassign_fn g prID oldUserID (zeroPullRequest, s) = (Some f, pr, s')"
  shows "PRReassign g tx prID oldUserID s =
           (Inl f, (case tx of TxManagerStub \<Rightarrow> s' | TxManagerTrm \<Rightarrow> s'\<lparr>db := db s\<rparr>))"
  using Do_Some [of "PRReassign_fn g prID oldUserID" "(zeroPullRequest, s)" f pr s' tx] assms
  by (cases tx) (simp_all add: PRReassign_def)

text \<open>
  Claim C7. When the old reviewer is assigned on an open pull request and every user of
  the fetched pool is the old reviewer or a reviewer of the pull request already,
  \<^verbatim>\<open>PRReassign\<close> fails with the error "no available reviewer"; the only calls issued are
  the three reads, so \<^verbatim>\<open>ReplaceReviewer\<close> is never called and nothing is mutated.
\<close>

theorem PRReassign_no_candidate:
  assumes fetch: "prGetByID g prID (db s) = (Inr pr, d1)"
    and "open": "PR_Status pr = PRStatusOpen"
    and assigned: "oldUserID \<in> Rev_ID ` set (PR_Reviewers pr)"
    and author: "userGetUserByID g (PR_AuthorID pr) d1 = (Inr author, d2)"
    and team: "User_TeamID author = Some teamID"
    and pool: "userGetActiveByTeam g teamID d2 = (Inr users, d3)"
    and none: "\<forall>u \<in> set users. User_ID u = oldUserID \<or> User_ID u \<in> Rev_ID ` set (PR_Reviewers pr)"
  shows "PRReassign g tx prID oldUserID s =
           (Inl (Err ErrNoAvailableReviewer),
            \<lparr>db = (case tx of TxManagerStub \<Rightarrow> d3 | TxManagerTrm \<Rightarrow> db s),
             calls = calls s @
               [CPRGetByID prID, CUserGetUserByID (PR_AuthorID pr),
                CUserGetActiveByTeam teamID]\<rparr>)
       \<and> list_all (\<lambda>c. \<not> mutating c)
            (drop (length (calls s)) (calls (snd (PRReassign g tx prID oldUserID s))))"
proof -
  from "open" have nm: "PR_Status pr \<noteq> PRStatusMerged"
    by (simp add: PRStatusOpen_def PRStatusMerged_def)
  from assigned have isr: "isReviewer (PR_Reviewers pr) oldUserID"
    by (simp add: isReviewer_iff)
  from none have "find (\<lambda>u. User_ID u \<noteq> oldUserID \<and> User_ID u \<notin> Rev_ID ` set (PR_Reviewers pr)) users = None"
    by (auto simp: find_None_iff)
  then have nil: "searchNewUser users oldUserID (PR_Reviewers pr) = uuid_Nil"
    by (simp add: searchNewUser_find)
  have res: "PRReassign g tx prID oldUserID s =
           (Inl (Err ErrNoAvailableReviewer),
            \<lparr>db = (case tx of TxManagerStub \<Rightarrow> d3 | TxManagerTrm \<Rightarrow> db s),
             calls = calls s @
               [CPRGetByID prID, CUserGetUserByID (PR_AuthorID pr),
                CUserGetActiveByTeam teamID]\<rparr>)"
    using PRReassign_Inl [OF PRReassign_fn_no_reviewer [OF fetch nm isr author team pool nil], of tx]
    by (cases tx) simp_all
  then show ?thesis by simp
qed

text \<open>
  Claim C9. The zero UUID is the "not found" mark of the search for a replacement: a
  successful \<^verbatim>\<open>PRReassign\<close> never hands the zero UUID to \<^verbatim>\<open>ReplaceReviewer\<close> nor
  reports it as the new reviewer, and when the first user of the pool that is neither the
  old reviewer nor a reviewer already has the zero UUID, the call fails with "no available
  reviewer" without calling \<^verbatim>\<open>ReplaceReviewer\<close>, although that user is eligible.
\<close>

theorem PRReassign_zero_uuid_sentinel:
  "(PRReassign g tx prID oldUserID s = (Inr pr', s') \<longrightarrow>
      replacedBy pr' \<noteq> Some uuid_Nil
      \<and> CPRReplaceReviewer prID oldUserID uuid_Nil \<notin> set (drop (length (calls s)) (calls s')))
   \<and> (prGetByID g prID (db s) = (Inr pr, d1)
      \<and> PR_Status pr \<noteq> PRStatusMerged
      \<and> oldUserID \<in> Rev_ID ` set (PR_Reviewers pr)
      \<and> userGetUserByID g (PR_AuthorID pr) d1 = (Inr author, d2)
      \<and> User_TeamID author = Some teamID
      \<and> userGetActiveByTeam g teamID d2 = (Inr users, d3)
      \<and> find (\<lambda>u. User_ID u \<noteq> oldUserID \<and> User_ID u \<notin> Rev_ID ` set (PR_Reviewers pr)) users
           = Some u
      \<and> User_ID u = uuid_Nil
      \<longrightarrow> fst (PRReassign g tx prID oldUserID s) = Inl (Err ErrNoAvailableReviewer)
          \<and> calls (snd (PRReassign g tx prID oldUserID s)) = calls s @
               [CPRGetByID prID, CUserGetUserByID (PR_AuthorID pr),
                CUserGetActiveByTeam teamID])"
proof (intro conjI impI)
  assume ok: "PRReassign g tx prID oldUserID s = (Inr pr', s')"
  then have "PRReassign_fn g prID oldUserID (zeroPullRequest, s) = (None, pr', s')"
    by (simp add: PRReassign_Inr)
  from PRReassign_fn_success [OF this]
  obtain pr0 users0 teamID0 d4 where
    chosen: "searchNewUser users0 oldUserID (PR_Reviewers pr0) \<noteq> uuid_Nil"
    and pr': "pr' = replaceInMemory pr0 oldUserID (searchNewUser users0 oldUserID (PR_Reviewers pr0))"
    and s': "s' = \<lparr>db = d4, calls = calls s @
                [CPRGetByID prID, CUserGetUserByID (PR_AuthorID pr0), CUserGetActiveByTeam teamID0,
                 CPRReplaceReviewer prID oldUserID
                   (searchNewUser users0 oldUserID (PR_Reviewers pr0))]\<rparr>"
    by blast
  show "replacedBy pr' \<noteq> Some uuid_Nil"
    using chosen by (simp add: pr' replacedBy_def replaceInMemory_def)
  show "CPRReplaceReviewer prID oldUserID uuid_Nil \<notin> set (drop (length (calls s)) (calls s'))"
    using chosen by (auto simp: s')
next
  assume h: "prGetByID g prID (db s) = (Inr pr, d1)
      \<and> PR_Status pr \<noteq> PRStatusMerged
      \<and> oldUserID \<in> Rev_ID ` set (PR_Reviewers pr)
      \<and> userGetUserByID g (PR_AuthorID pr) d1 = (Inr author, d2)
      \<and> User_TeamID author = Some teamID
      \<and> userGetActiveByTeam g teamID d2 = (Inr users, d3)
      \<and> find (\<lambda>u. User_ID u \<noteq> oldUserID \<and> User_ID u \<notin> Rev_ID ` set (PR_Reviewers pr)) users
           = Some u
      \<and> User_ID u = uuid_Nil"
  then have nil: "searchNewUser users oldUserID (PR_Reviewers pr) = uuid_Nil"
    by (simp add: searchNewUser_find)
  from h have isr: "isReviewer (PR_Reviewers pr) oldUserID"
    by (simp add: isReviewer_iff)
  from h have "PRReassign_fn g prID oldUserID (zeroPullRequest, s) =
           (Some (Err ErrNoAvailableReviewer), pr,
            \<lparr>db = d3, calls = calls s @
               [CPRGetByID prID, CUserGetUserByID (PR_AuthorID pr),
                CUserGetActiveByTeam teamID]\<rparr>)"
    using PRReassign_fn_no_reviewer [of g prID s pr d1 oldUserID author d2 teamID users d3] nil isr
    by blast
  from PRReassign_Inl [OF this, of tx]
  show "fst (PRReassign g tx prID oldUserID s) = Inl (Err ErrNoAvailableReviewer)"
    and "calls (snd (PRReassign g tx prID oldUserID s)) = calls s @
               [CPRGetByID prID, CUserGetUserByID (PR_AuthorID pr),
                CUserGetActiveByTeam teamID]"
    by (cases tx; simp)+
qed

text \<open>
  Claim C8. \<^verbatim>\<open>UsersSetIsActive\<close> does not run under the transaction manager: when the
  update succeeds and the read of the user that follows fails, the call returns no user
  and the error of the read, and the store is the one the update and the read left,
  whichever transaction manager the service holds; nothing is rolled back.
\<close>

theorem UsersSetIsActive_not_rolled_back:
  assumes update: "userUpdateActive g userID active (db s) = (None, d1)"
    and fetch: "userGetUserByID g userID d1 = (Inl e, d2)"
  shows "UsersSetIsActive g tx userID active s =
           (Inl (Err e),
            \<lparr>db = d2, calls = calls s @ [CUserUpdateActive userID active, CUserGetUserByID userID]\<rparr>)"
  using assms by (simp add: UsersSetIsActive_def invoke_def)


lemma TeamAdd_members_success:
  assumes "TeamAdd_members g teamID handled todo s = (None, ms, s')"
  shows "length ms = length handled + length todo
       \<and> (\<forall>m \<in> set ms. m \<in> set handled \<or> User_TeamID m = Some teamID)
       \<and> calls s' = calls s @ map (\<lambda>m. CUserCreate (m\<lparr>User_TeamID := Some teamID\<rparr>)) todo"
  using assms
proof (induction todo arbitrary: handled s)
  case Nil
  then show ?case by auto
next
  case (Cons m rest)
  let ?m' = "m\<lparr>User_TeamID := Some teamID\<rparr>"
  obtain r s1 where inv: "invoke (CUserCreate ?m') (userCreate g ?m') s = (r, s1)"
    by (cases "invoke (CUserCreate ?m') (userCreate g ?m') s") auto
  then have c1: "calls s1 = calls s @ [CUserCreate ?m']"
    by (auto simp: invoke_def split: prod.splits)
  show ?case
  proof (cases r)
    case (Inl e)
    with Cons.prems inv show ?thesis by (simp add: Let_def)
  next
    case (Inr newID)
    with Cons.prems inv
    have "TeamAdd_members g teamID (handled @ [?m'\<lparr>User_ID := newID\<rparr>]) rest s1 = (None, ms, s')"
      by (simp add: Let_def)
    from Cons.IH [OF this] c1 show ?thesis
      by auto
  qed
qed

lemma TeamAdd_fn_success:
  assumes "TeamAdd_fn g (team, s) = (None, team', s')"
  shows "\<exists>teamID d1 ms.
           teamCreate g team (db s) = (Inr teamID, d1)
         \<and> TeamAdd_members g teamID [] (Team_Members team)
              \<lparr>db = d1, calls = calls s @ [CTeamCreate team]\<rparr> = (None, ms, s')
         \<and> team' = team\<lparr>Team_ID := teamID, Team_Members := ms\<rparr>"
  using assms
  by (auto simp: TeamAdd_fn_def invoke_def Let_def
           split: prod.splits sum.splits if_splits)

text \<open>
  Claim C10. After every successful \<^verbatim>\<open>TeamAdd\<close> the team object of the caller carries
  the identifier of the created team and every member of it has that identifier as its
  team; each member was handed to the user gateway with the team already set, in the
  order of the members.
\<close>

theorem TeamAdd_sets_member_team:
  assumes "TeamAdd g tx team s = (None, team', s')"
  shows "\<exists>teamID d1.
           teamCreate g team (db s) = (Inr teamID, d1)
         \<and> Team_ID team' = teamID
         \<and> length (Team_Members team') = length (Team_Members team)
         \<and> (\<forall>m \<in> set (Team_Members team'). User_TeamID m = Some teamID)
         \<and> calls s' = calls s @ CTeamCreate team #
              map (\<lambda>m. CUserCreate (m\<lparr>User_TeamID := Some teamID\<rparr>)) (Team_Members team)"
proof -
  from assms have "TeamAdd_fn g (team, s) = (None, team', s')"
    by (simp add: TeamAdd_def Do_None)
  from TeamAdd_fn_success [OF this]
  obtain teamID d1 ms where
    created: "teamCreate g team (db s) = (Inr teamID, d1)"
    and loop: "TeamAdd_members g teamID [] (Team_Members team)
              \<lparr>db = d1, calls = calls s @ [CTeamCreate team]\<rparr> = (None, ms, s')"
    and team': "team' = team\<lparr>Team_ID := teamID, Team_Members := ms\<rparr>"
    by blast
  from TeamAdd_members_success [OF loop] created team' show ?thesis
    by (intro exI [of _ teamID] exI [of _ d1]) simp
qed

section \<open>Runs on the concrete store\<close>

lemmas example_defs = alice_def bob_def carol_def exampleDB_def examplePR_def
  assignedPR_def mergedPR_def stateEmpty_def stateCreated_def stateOpen_def stateMerged_def
  reassignedPR_def stateReassigned_def
  PRStatusOpen_def PRStatusMerged_def zeroPullRequest_def uuid_Nil_def

lemmas mem_defs = memGateway_def mem_teamCreate_def mem_userGetUserByID_def
  mem_userGetActiveByTeam_def mem_userCreate_def mem_userUpdateActive_def mem_prCreate_def
  mem_prGetByID_def mem_prAssignReviewers_def mem_prReplaceReviewer_def mem_prMerge_def

lemmas service_defs = invoke_def Do_def CreatePR_def CreatePR_fn_def PRMerge_def
  PRMerge_fn_def PRReassign_def PRReassign_fn_def replaceInMemory_def

lemma run_CreatePR:
  "CreatePR memGateway TxManagerTrm examplePR stateEmpty = (None, stateCreated)"
  by (simp add: service_defs mem_defs example_defs)

lemma run_PRMerge_first:
  "PRMerge memGateway TxManagerTrm 7 stateOpen = (Inr assignedPR, stateMerged)"
  by (simp add: service_defs mem_defs example_defs)

lemma run_PRMerge_second:
  "PRMerge memGateway TxManagerTrm 7 stateMerged =
     (Inr mergedPR, \<lparr>db = db stateMerged, calls = calls stateMerged @ [CPRGetByID 7]\<rparr>)"
  by (simp add: service_defs mem_defs example_defs)

lemma run_PRReassign:
  "PRReassign memGateway TxManagerTrm 7 12 stateOpen = (Inr reassignedPR, stateReassigned)"
  by (simp add: service_defs mem_defs example_defs)

lemma run_TeamAdd:
  "TeamAdd memGateway TxManagerTrm newTeam stateEmpty = (None, addedTeam, stateTeamAdded)"
  by (simp add: TeamAdd_def TeamAdd_fn_def newTeam_def addedTeam_def stateTeamAdded_def
        service_defs mem_defs example_defs)

text \<open>
  Creating the pull request 7 stores the first two of the three active members, 11 and 12,
  as its reviewers.
\<close>

theorem CreatePR_persists_first_two_witness:
  "CreatePR memGateway TxManagerTrm examplePR stateEmpty = (None, stateCreated)
   \<and> calls stateCreated =
        [CPRCreate examplePR, CUserGetUserByID 11, CUserGetActiveByTeam 1,
         CPRAssignReviewers 7 [11, 12]]
   \<and> (\<exists>d1 author d2 teamID pool d3.
         prCreate memGateway examplePR (db stateEmpty) = (None, d1)
       \<and> userGetUserByID memGateway (PR_AuthorID examplePR) d1 = (Inr author, d2)
       \<and> User_TeamID author = Some teamID
       \<and> userGetActiveByTeam memGateway teamID d2 = (Inr pool, d3)
       \<and> prAssignReviewers memGateway (PR_ID examplePR) (map User_ID (take 2 pool)) d3
            = (None, db stateCreated)
       \<and> calls stateCreated = calls stateEmpty @
            [CPRCreate examplePR, CUserGetUserByID (PR_AuthorID examplePR),
             CUserGetActiveByTeam teamID,
             CPRAssignReviewers (PR_ID examplePR) (map User_ID (take 2 pool))]
       \<and> length (map User_ID (take 2 pool)) = min 2 (length pool))"
proof (intro conjI)
  show "CreatePR memGateway TxManagerTrm examplePR stateEmpty = (None, stateCreated)"
    by (rule run_CreatePR)
  show "calls stateCreated =
        [CPRCreate examplePR, CUserGetUserByID 11, CUserGetActiveByTeam 1,
         CPRAssignReviewers 7 [11, 12]]"
    by (simp add: stateCreated_def)
  show "\<exists>d1 author d2 teamID pool d3.
         prCreate memGateway examplePR (db stateEmpty) = (None, d1)
       \<and> userGetUserByID memGateway (PR_AuthorID examplePR) d1 = (Inr author, d2)
       \<and> User_TeamID author = Some teamID
       \<and> userGetActiveByTeam memGateway teamID d2 = (Inr pool, d3)
       \<and> prAssignReviewers memGateway (PR_ID examplePR) (map User_ID (take 2 pool)) d3
            = (None, db stateCreated)
       \<and> calls stateCreated = calls stateEmpty @
            [CPRCreate examplePR, CUserGetUserByID (PR_AuthorID examplePR),
             CUserGetActiveByTeam teamID,
             CPRAssignReviewers (PR_ID examplePR) (map User_ID (take 2 pool))]
       \<and> length (map User_ID (take 2 pool)) = min 2 (length pool)"
    by (rule CreatePR_persists_first_two [OF run_CreatePR])
qed

text \<open>
  The author 11 of the pull request 7 is the first of the three active members of the
  team, and creating the pull request assigns 11 and 12: the author reviews the author's
  own pull request.
\<close>

theorem CreatePR_author_assigned_counterexample:
  "CreatePR memGateway TxManagerTrm examplePR stateEmpty = (None, stateCreated)
   \<and> mem_userGetActiveByTeam 1 (db stateEmpty) = (Inr [alice, bob, carol], db stateEmpty)
   \<and> PR_AuthorID examplePR = User_ID alice
   \<and> last (calls stateCreated) = CPRAssignReviewers 7 [User_ID alice, User_ID bob]
   \<and> mem_prGetByID 7 (db stateCreated) = (Inr assignedPR, db stateCreated)
   \<and> map Rev_ID (PR_Reviewers assignedPR) = [PR_AuthorID examplePR, User_ID bob]"
  using run_CreatePR by (simp add: mem_defs example_defs)

theorem CreatePR_three_member_team_witness:
  "CreatePR memGateway TxManagerTrm examplePR stateEmpty = (None, stateCreated)
   \<and> prCreate memGateway examplePR (db stateEmpty) = (None, exampleDB\<lparr>mem_prs := [examplePR]\<rparr>)
   \<and> userGetUserByID memGateway (PR_AuthorID examplePR) (exampleDB\<lparr>mem_prs := [examplePR]\<rparr>)
        = (Inr alice, exampleDB\<lparr>mem_prs := [examplePR]\<rparr>)
   \<and> User_TeamID alice = Some 1
   \<and> userGetActiveByTeam memGateway 1 (exampleDB\<lparr>mem_prs := [examplePR]\<rparr>)
        = (Inr [alice, bob, carol], exampleDB\<lparr>mem_prs := [examplePR]\<rparr>)
   \<and> length [alice, bob, carol] = 3
   \<and> distinct (map User_ID [alice, bob, carol])
   \<and> PR_AuthorID examplePR \<in> set (map User_ID [alice, bob, carol])
   \<and> last (calls stateCreated) = CPRAssignReviewers (PR_ID examplePR) [User_ID alice, User_ID bob]
   \<and> User_ID alice \<noteq> User_ID bob
   \<and> PR_AuthorID examplePR \<in> {User_ID alice, User_ID bob}
   \<and> PR_AuthorID examplePR \<noteq> User_ID carol"
proof -
  let ?d = "exampleDB\<lparr>mem_prs := [examplePR]\<rparr>"
  have h2: "prCreate memGateway examplePR (db stateEmpty) = (None, ?d)"
    by (simp add: mem_defs example_defs)
  have h3: "userGetUserByID memGateway (PR_AuthorID examplePR) ?d = (Inr alice, ?d)"
    by (simp add: mem_defs example_defs)
  have h4: "User_TeamID alice = Some 1"
    by (simp add: alice_def)
  have h5: "userGetActiveByTeam memGateway 1 ?d = (Inr [alice, bob, carol], ?d)"
    by (simp add: mem_defs example_defs)
  have h6: "length [alice, bob, carol] = 3"
    by simp
  have h7: "distinct (map User_ID [alice, bob, carol])"
    by (simp add: example_defs)
  have h8: "PR_AuthorID examplePR \<in> set (map User_ID [alice, bob, carol])"
    by (simp add: example_defs)
  from CreatePR_three_member_team [OF run_CreatePR h2 h3 h4 h5 h6 h7 h8]
  have "last (calls stateCreated) = CPRAssignReviewers (PR_ID examplePR) [User_ID alice, User_ID bob]
      \<and> User_ID alice \<noteq> User_ID bob
      \<and> (PR_AuthorID examplePR \<notin> {User_ID alice, User_ID bob}
            \<longleftrightarrow> PR_AuthorID examplePR = User_ID carol)"
    by simp
  moreover have "PR_AuthorID examplePR \<noteq> User_ID carol"
    by (simp add: example_defs)
  ultimately show ?thesis
    using run_CreatePR h2 h3 h4 h5 h6 h7 h8 by simp
qed

text \<open>
  The first merge of the open pull request 7 returns it as it was fetched, open and
  without a merge time; the second returns it as it is stored by then, merged: the two
  results differ.
\<close>

theorem PRMerge_twice_counterexample:
  "fst (PRMerge memGateway TxManagerTrm 7 stateOpen) = Inr assignedPR
   \<and> fst (PRMerge memGateway TxManagerTrm 7 (snd (PRMerge memGateway TxManagerTrm 7 stateOpen)))
       = Inr mergedPR
   \<and> PR_Status assignedPR = PRStatusOpen
   \<and> PR_Status mergedPR = PRStatusMerged
   \<and> fst (PRMerge memGateway TxManagerTrm 7 (snd (PRMerge memGateway TxManagerTrm 7 stateOpen)))
       \<noteq> fst (PRMerge memGateway TxManagerTrm 7 stateOpen)"
  by (simp add: run_PRMerge_first run_PRMerge_second) (simp add: example_defs)

theorem PRMerge_already_merged_witness:
  "prGetByID memGateway 7 (db stateMerged) = (Inr mergedPR, db stateMerged)
   \<and> PR_Status mergedPR = PRStatusMerged
   \<and> PRMerge memGateway TxManagerTrm 7 stateMerged =
        (Inr mergedPR, \<lparr>db = db stateMerged, calls = calls stateMerged @ [CPRGetByID 7]\<rparr>)
   \<and> PRMerge memGateway TxManagerTrm 7 stateOpen = (Inr assignedPR, stateMerged)
   \<and> PR_Status assignedPR \<noteq> PRStatusMerged
   \<and> filter mutating
        (drop (length (calls stateOpen))
           (calls (snd (PRMerge memGateway TxManagerTrm 7 stateMerged)))) = [CPRMerge 7]"
proof -
  have h1: "prGetByID memGateway 7 (db stateMerged) = (Inr mergedPR, db stateMerged)"
    by (simp add: mem_defs example_defs)
  have h2: "PR_Status mergedPR = PRStatusMerged"
    by (simp add: example_defs)
  have h3: "PR_Status assignedPR \<noteq> PRStatusMerged"
    by (simp add: example_defs)
  note inst = PRMerge_already_merged [OF h1 h2, of TxManagerTrm]
  from inst have a: "PRMerge memGateway TxManagerTrm 7 stateMerged =
        (Inr mergedPR, \<lparr>db = db stateMerged, calls = calls stateMerged @ [CPRGetByID 7]\<rparr>)"
    by simp
  from inst run_PRMerge_first h3
  have b: "filter mutating
        (drop (length (calls stateOpen))
           (calls (snd (PRMerge memGateway TxManagerTrm 7 stateMerged)))) = [CPRMerge 7]"
    by blast
  from h1 h2 h3 a b run_PRMerge_first show ?thesis
    by blast
qed

theorem PRMerge_returns_fetched_witness:
  "prGetByID memGateway 7 (db stateOpen) = (Inr assignedPR, db stateOpen)
   \<and> PR_Status assignedPR = PRStatusOpen
   \<and> prMerge memGateway 7 (db stateOpen) = (None, db stateMerged)
   \<and> PRMerge memGateway TxManagerTrm 7 stateOpen = (Inr assignedPR, stateMerged)
   \<and> PR_MergedAt assignedPR = None
   \<and> prGetByID memGateway 7 (db stateMerged) = (Inr mergedPR, db stateMerged)
   \<and> PR_MergedAt mergedPR = Some 1000"
proof -
  have h1: "prGetByID memGateway 7 (db stateOpen) = (Inr assignedPR, db stateOpen)"
    by (simp add: mem_defs example_defs)
  have h2: "PR_Status assignedPR = PRStatusOpen"
    by (simp add: example_defs)
  have h3: "prMerge memGateway 7 (db stateOpen) = (None, db stateMerged)"
    by (simp add: mem_defs example_defs)
  have h4: "PR_MergedAt assignedPR = None"
    by (simp add: example_defs)
  from PRMerge_returns_fetched [OF h1 h2 h4 h3, of TxManagerTrm]
  have "PRMerge memGateway TxManagerTrm 7 stateOpen =
          (Inr assignedPR,
           \<lparr>db = db stateMerged, calls = calls stateOpen @ [CPRGetByID 7, CPRMerge 7]\<rparr>)"
    by auto
  then have "PRMerge memGateway TxManagerTrm 7 stateOpen = (Inr assignedPR, stateMerged)"
    by (simp add: stateMerged_def stateOpen_def)
  moreover have "prGetByID memGateway 7 (db stateMerged) = (Inr mergedPR, db stateMerged)"
    and "PR_MergedAt mergedPR = Some 1000"
    by (simp_all add: mem_defs example_defs)
  ultimately show ?thesis
    using h1 h2 h3 h4 by blast
qed

theorem PRReassign_reviewer_list_witness:
  "PRReassign memGateway TxManagerTrm 7 12 stateOpen = (Inr reassignedPR, stateReassigned)
   \<and> map Rev_ID (PR_Reviewers reassignedPR) = [11, 13]
   \<and> (\<exists>newUserID.
         last (calls stateReassigned) = CPRReplaceReviewer 7 12 newUserID
       \<and> 12 \<notin> Rev_ID ` set (PR_Reviewers reassignedPR)
       \<and> count_list (map Rev_ID (PR_Reviewers reassignedPR)) newUserID = 1
       \<and> PR_Reviewers reassignedPR \<noteq> []
       \<and> Rev_ID (last (PR_Reviewers reassignedPR)) = newUserID
       \<and> replacedBy reassignedPR = Some newUserID)"
proof (intro conjI)
  show "PRReassign memGateway TxManagerTrm 7 12 stateOpen = (Inr reassignedPR, stateReassigned)"
    by (rule run_PRReassign)
  show "map Rev_ID (PR_Reviewers reassignedPR) = [11, 13]"
    by (simp add: example_defs)
  show "\<exists>newUserID.
         last (calls stateReassigned) = CPRReplaceReviewer 7 12 newUserID
       \<and> 12 \<notin> Rev_ID ` set (PR_Reviewers reassignedPR)
       \<and> count_list (map Rev_ID (PR_Reviewers reassignedPR)) newUserID = 1
       \<and> PR_Reviewers reassignedPR \<noteq> []
       \<and> Rev_ID (last (PR_Reviewers reassignedPR)) = newUserID
       \<and> replacedBy reassignedPR = Some newUserID"
    by (rule PRReassign_reviewer_list [OF run_PRReassign])
qed

theorem PRReassign_no_candidate_witness:
  "prGetByID memGateway 7 (db stateNoCandidate) = (Inr assignedPR, db stateNoCandidate)
   \<and> PR_Status assignedPR = PRStatusOpen
   \<and> 12 \<in> Rev_ID ` set (PR_Reviewers assignedPR)
   \<and> userGetUserByID memGateway (PR_AuthorID assignedPR) (db stateNoCandidate)
        = (Inr alice, db stateNoCandidate)
   \<and> User_TeamID alice = Some 1
   \<and> userGetActiveByTeam memGateway 1 (db stateNoCandidate)
        = (Inr [alice, bob], db stateNoCandidate)
   \<and> list_all (\<lambda>u. User_ID u = 12 \<or> User_ID u \<in> Rev_ID ` set (PR_Reviewers assignedPR))
        [alice, bob]
   \<and> PRReassign memGateway TxManagerTrm 7 12 stateNoCandidate =
        (Inl (Err ErrNoAvailableReviewer),
         \<lparr>db = db stateNoCandidate,
          calls = [CPRGetByID 7, CUserGetUserByID 11, CUserGetActiveByTeam 1]\<rparr>)
   \<and> prGetByID memGateway 7
        (db (snd (PRReassign memGateway TxManagerTrm 7 12 stateNoCandidate)))
        = (Inr assignedPR, db stateNoCandidate)"
proof -
  have h1: "prGetByID memGateway 7 (db stateNoCandidate) = (Inr assignedPR, db stateNoCandidate)"
    by (simp add: stateNoCandidate_def mem_defs example_defs)
  have h2: "PR_Status assignedPR = PRStatusOpen"
    by (simp add: stateNoCandidate_def example_defs)
  have h3: "12 \<in> Rev_ID ` set (PR_Reviewers assignedPR)"
    by (simp add: stateNoCandidate_def example_defs)
  have h4: "userGetUserByID memGateway (PR_AuthorID assignedPR) (db stateNoCandidate)
        = (Inr alice, db stateNoCandidate)"
    by (simp add: stateNoCandidate_def mem_defs example_defs)
  have h5: "User_TeamID alice = Some 1"
    by (simp add: alice_def)
  have h6: "userGetActiveByTeam memGateway 1 (db stateNoCandidate)
        = (Inr [alice, bob], db stateNoCandidate)"
    by (simp add: stateNoCandidate_def mem_defs example_defs)
  have h7: "\<forall>u \<in> set [alice, bob].
              User_ID u = 12 \<or> User_ID u \<in> Rev_ID ` set (PR_Reviewers assignedPR)"
    by (simp add: stateNoCandidate_def example_defs)
  from PRReassign_no_candidate [OF h1 h2 h3 h4 h5 h6 h7, of TxManagerTrm]
  have r: "PRReassign memGateway TxManagerTrm 7 12 stateNoCandidate =
        (Inl (Err ErrNoAvailableReviewer),
         \<lparr>db = db stateNoCandidate,
          calls = [CPRGetByID 7, CUserGetUserByID 11, CUserGetActiveByTeam 1]\<rparr>)"
    by (simp add: stateNoCandidate_def example_defs)
  from r h1 have "prGetByID memGateway 7
        (db (snd (PRReassign memGateway TxManagerTrm 7 12 stateNoCandidate)))
        = (Inr assignedPR, db stateNoCandidate)"
    by simp
  moreover from h7
  have "list_all (\<lambda>u. User_ID u = 12 \<or> User_ID u \<in> Rev_ID ` set (PR_Reviewers assignedPR))
          [alice, bob]"
    by simp
  ultimately show ?thesis
    using r h1 h2 h3 h4 h5 h6 by blast
qed

theorem PRReassign_zero_uuid_sentinel_witness:
  "PRReassign memGateway TxManagerTrm 7 12 stateOpen = (Inr reassignedPR, stateReassigned)
   \<and> replacedBy reassignedPR \<noteq> Some uuid_Nil
   \<and> CPRReplaceReviewer 7 12 uuid_Nil
        \<notin> set (drop (length (calls stateOpen)) (calls stateReassigned))
   \<and> prGetByID memGateway 7 (db stateZeroUser) = (Inr assignedPR, db stateZeroUser)
   \<and> PR_Status assignedPR \<noteq> PRStatusMerged
   \<and> 12 \<in> Rev_ID ` set (PR_Reviewers assignedPR)
   \<and> userGetUserByID memGateway (PR_AuthorID assignedPR) (db stateZeroUser)
        = (Inr alice, db stateZeroUser)
   \<and> User_TeamID alice = Some 1
   \<and> userGetActiveByTeam memGateway 1 (db stateZeroUser)
        = (Inr [alice, bob, zed], db stateZeroUser)
   \<and> find (\<lambda>u. User_ID u \<noteq> 12 \<and> User_ID u \<notin> Rev_ID ` set (PR_Reviewers assignedPR))
        [alice, bob, zed] = Some zed
   \<and> User_ID zed = uuid_Nil
   \<and> fst (PRReassign memGateway TxManagerTrm 7 12 stateZeroUser)
        = Inl (Err ErrNoAvailableReviewer)"
proof -
  from PRReassign_zero_uuid_sentinel
         [of memGateway TxManagerTrm 7 12 stateOpen reassignedPR stateReassigned]
       run_PRReassign
  have a: "replacedBy reassignedPR \<noteq> Some uuid_Nil
         \<and> CPRReplaceReviewer 7 12 uuid_Nil
              \<notin> set (drop (length (calls stateOpen)) (calls stateReassigned))"
    by blast
  have h1: "prGetByID memGateway 7 (db stateZeroUser) = (Inr assignedPR, db stateZeroUser)"
    by (simp add: stateZeroUser_def zed_def mem_defs example_defs)
  have h2: "PR_Status assignedPR \<noteq> PRStatusMerged"
    by (simp add: stateZeroUser_def zed_def example_defs)
  have h3: "12 \<in> Rev_ID ` set (PR_Reviewers assignedPR)"
    by (simp add: stateZeroUser_def zed_def example_defs)
  have h4: "userGetUserByID memGateway (PR_AuthorID assignedPR) (db stateZeroUser)
        = (Inr alice, db stateZeroUser)"
    by (simp add: stateZeroUser_def zed_def mem_defs example_defs)
  have h5: "User_TeamID alice = Some 1"
    by (simp add: alice_def)
  have h6: "userGetActiveByTeam memGateway 1 (db stateZeroUser)
        = (Inr [alice, bob, zed], db stateZeroUser)"
    by (simp add: stateZeroUser_def zed_def mem_defs example_defs)
  have h7: "find (\<lambda>u. User_ID u \<noteq> 12 \<and> User_ID u \<notin> Rev_ID ` set (PR_Reviewers assignedPR))
        [alice, bob, zed] = Some zed"
    by (simp add: stateZeroUser_def zed_def example_defs)
  have h8: "User_ID zed = uuid_Nil"
    by (simp add: stateZeroUser_def zed_def example_defs)
  from PRReassign_zero_uuid_sentinel
         [of memGateway TxManagerTrm 7 12 stateZeroUser _ _ assignedPR "db stateZeroUser"
             alice "db stateZeroUser" 1 "[alice, bob, zed]" "db stateZeroUser" zed]
       h1 h2 h3 h4 h5 h6 h7 h8
  have b: "fst (PRReassign memGateway TxManagerTrm 7 12 stateZeroUser)
        = Inl (Err ErrNoAvailableReviewer)"
    by blast
  from a b h1 h2 h3 h4 h5 h6 h7 h8 run_PRReassign show ?thesis
    by blast
qed

theorem UsersSetIsActive_not_rolled_back_witness:
  "userUpdateActive flakyGateway 13 False (db stateEmpty)
     = (None, exampleDB\<lparr>mem_users := [alice, bob, carol\<lparr>User_IsActive := False\<rparr>]\<rparr>)
   \<and> userGetUserByID flakyGateway 13
        (exampleDB\<lparr>mem_users := [alice, bob, carol\<lparr>User_IsActive := False\<rparr>]\<rparr>)
     = (Inl (ErrOther ''connection reset''),
        exampleDB\<lparr>mem_users := [alice, bob, carol\<lparr>User_IsActive := False\<rparr>]\<rparr>)
   \<and> UsersSetIsActive flakyGateway TxManagerTrm 13 False stateEmpty =
       (Inl (Err (ErrOther ''connection reset'')),
        \<lparr>db = exampleDB\<lparr>mem_users := [alice, bob, carol\<lparr>User_IsActive := False\<rparr>]\<rparr>,
         calls = [CUserUpdateActive 13 False, CUserGetUserByID 13]\<rparr>)
   \<and> mem_userGetUserByID 13 (db stateEmpty) = (Inr carol, db stateEmpty)
   \<and> User_IsActive carol
   \<and> mem_userGetUserByID 13
        (db (snd (UsersSetIsActive flakyGateway TxManagerTrm 13 False stateEmpty)))
       = (Inr (carol\<lparr>User_IsActive := False\<rparr>),
          exampleDB\<lparr>mem_users := [alice, bob, carol\<lparr>User_IsActive := False\<rparr>]\<rparr>)"
proof -
  let ?d = "exampleDB\<lparr>mem_users := [alice, bob, carol\<lparr>User_IsActive := False\<rparr>]\<rparr>"
  have h1: "userUpdateActive flakyGateway 13 False (db stateEmpty) = (None, ?d)"
    by (simp add: flakyGateway_def mem_defs example_defs)
  have h2: "userGetUserByID flakyGateway 13 ?d = (Inl (ErrOther ''connection reset''), ?d)"
    by (simp add: flakyGateway_def mem_defs example_defs)
  from UsersSetIsActive_not_rolled_back [OF h1 h2, of TxManagerTrm]
  have r: "UsersSetIsActive flakyGateway TxManagerTrm 13 False stateEmpty =
       (Inl (Err (ErrOther ''connection reset'')),
        \<lparr>db = ?d, calls = [CUserUpdateActive 13 False, CUserGetUserByID 13]\<rparr>)"
    by (simp add: stateEmpty_def)
  have "mem_userGetUserByID 13 (db stateEmpty) = (Inr carol, db stateEmpty)"
    and "User_IsActive carol"
    and "mem_userGetUserByID 13 ?d = (Inr (carol\<lparr>User_IsActive := False\<rparr>), ?d)"
    by (simp_all add: flakyGateway_def mem_defs example_defs)
  with h1 h2 r show ?thesis
    by simp
qed

theorem TeamAdd_sets_member_team_witness:
  "TeamAdd memGateway TxManagerTrm newTeam stateEmpty = (None, addedTeam, stateTeamAdded)
   \<and> map User_TeamID (Team_Members newTeam) = [None, None]
   \<and> map User_TeamID (Team_Members addedTeam) = [Some 100, Some 100]
   \<and> (\<exists>teamID d1.
         teamCreate memGateway newTeam (db stateEmpty) = (Inr teamID, d1)
       \<and> Team_ID addedTeam = teamID
       \<and> length (Team_Members addedTeam) = length (Team_Members newTeam)
       \<and> list_all (\<lambda>m. User_TeamID m = Some teamID) (Team_Members addedTeam)
       \<and> calls stateTeamAdded = calls stateEmpty @ CTeamCreate newTeam #
            map (\<lambda>m. CUserCreate (m\<lparr>User_TeamID := Some teamID\<rparr>)) (Team_Members newTeam))"
proof (intro conjI)
  show "TeamAdd memGateway TxManagerTrm newTeam stateEmpty = (None, addedTeam, stateTeamAdded)"
    by (rule run_TeamAdd)
  show "map User_TeamID (Team_Members newTeam) = [None, None]"
    by (simp add: newTeam_def)
  show "map User_TeamID (Team_Members addedTeam) = [Some 100, Some 100]"
    by (simp add: addedTeam_def)
  show "\<exists>teamID d1.
         teamCreate memGateway newTeam (db stateEmpty) = (Inr teamID, d1)
       \<and> Team_ID addedTeam = teamID
       \<and> length (Team_Members addedTeam) = length (Team_Members newTeam)
       \<and> list_all (\<lambda>m. User_TeamID m = Some teamID) (Team_Members addedTeam)
       \<and> calls stateTeamAdded = calls stateEmpty @ CTeamCreate newTeam #
            map (\<lambda>m. CUserCreate (m\<lparr>User_TeamID := Some teamID\<rparr>)) (Team_Members newTeam)"
    using TeamAdd_sets_member_team [OF run_TeamAdd] by (simp add: list_all_iff)
qed

end
